theory Spec2Isabelle
  imports Main "HOL-Library.Word"
begin

section \<open>Canonical model and upstream response types (models.go)\<close>

text \<open>
  A Go \<open>float64\<close> is carried as its 64-bit pattern: the server only copies such values
  from a decoded upstream body into its own structs and never computes with them.
  Go's \<open>int\<close> and \<open>int64\<close> fields are \<open>int\<close>: the only arithmetic in the program is the
  counter \<open>id++\<close> over the entries of one decoded list.
\<close>

type_synonym float64 = "64 word"

record City =
  City_ID :: int
  City_Name :: string
  City_ThreeLetterCode :: string
  City_Currency :: string
  City_Country :: string

record Landmark =
  Landmark_Name :: string
  Landmark_Address :: string
  Landmark_Latitude :: float64
  Landmark_Longitude :: float64
  Landmark_Rating :: float64

record HourlyForecast =
  Forecast_Time :: string
  Forecast_Temperature :: float64
  Forecast_WindSpeed :: float64
  Forecast_RelativeHumidity :: int

record WeatherData =
  Weather_Latitude :: float64
  Weather_Longitude :: float64
  Weather_Hourly :: "HourlyForecast list"

text \<open>\<open>time.Unix(sec, nsec)\<close>: a time value given by its Unix seconds and nanoseconds.\<close>

datatype GoTime = Unix (unix_sec: int) (unix_nsec: int)

record RatesData =
  Rates_BaseCurrency :: string
  Rates_Rates :: "string \<rightharpoonup> float64"
  Rates_Timestamp :: GoTime

text \<open>\<open>FoursquareV2Response\<close>, a nest of anonymous structs, one record per level.\<close>

record FsLocation =
  Loc_Lat :: float64
  Loc_Lng :: float64
  Loc_Address :: string
  Loc_FormattedAddress :: "string list"

record FsVenue =
  Venue_Name :: string
  Venue_Rating :: float64
  Venue_Location :: FsLocation

record FsItem =
  Item_Venue :: FsVenue

record FsGroup =
  Group_Items :: "FsItem list"

record FsResponse =
  Resp_Groups :: "FsGroup list"

record FoursquareV2Response =
  FS_Response :: FsResponse

record OpenMeteoHourly =
  OM_Time :: "string list"
  OM_Temperature :: "float64 list"
  OM_WindSpeed :: "float64 list"
  OM_RelativeHumidity :: "int list"

record OpenMeteoResponse =
  OM_Latitude :: float64
  OM_Longitude :: float64
  OM_Hourly :: OpenMeteoHourly

record ExchangeRateResponse =
  ER_Result :: string
  ER_BaseCode :: string
  ER_ConversionRates :: "string \<rightharpoonup> float64"
  ER_TimeLastUpdateUnix :: int

record CountryName =
  CN_Common :: string
  CN_Official :: string

record CurrencyInfo =
  Cur_Name :: string
  Cur_Symbol :: string

text \<open>
  \<open>RestCountry.Currencies\<close> is a Go map. \<open>None\<close> is the nil map (the JSON field absent
  or \<open>null\<close>); \<open>Some kvs\<close> is a non-nil map (any JSON object, also \<open>{}\<close>) whose entries
  are listed in the order in which \<open>range\<close> visits them in this run. Go leaves that
  order unspecified, so every statement below is made for every such list.
\<close>

record RestCountry =
  RC_Name :: CountryName
  RC_CCA3 :: string
  RC_Capital :: "string list"
  RC_Currencies :: "(string \<times> CurrencyInfo) list option"

record NominatimResult =
  Nom_Lat :: float64
  Nom_Lon :: float64

section \<open>Errors, panics and formatting\<close>

text \<open>
  A Go \<open>error\<close> value, by where it is made: returned by \<open>net/http\<close> or \<open>encoding/json\<close>
  (with the library's message), made by \<open>fmt.Errorf\<close> from a finished message, or made
  by \<open>fmt.Errorf\<close> with \<open>%w\<close> at the end of a prefix, wrapping another error.
\<close>

datatype go_error =
    LibError string
  | Errorf string
  | Wrapf string go_error

fun Error :: "go_error \<Rightarrow> string" where
  "Error (LibError m) = m"
| "Error (Errorf m) = m"
| "Error (Wrapf p e) = p @ Error e"

text \<open>A run-time panic: \<open>index out of range [i] with length n\<close>.\<close>

datatype panic = IndexOutOfRange nat nat

datatype 'a outcome = Returns 'a | Panics panic

text \<open>\<open>%d\<close> of \<open>fmt\<close> for an \<open>int\<close>.\<close>

fun digits :: "nat \<Rightarrow> string" where
  "digits n = (if n < 10 then [''0123456789'' ! n]
               else digits (n div 10) @ [''0123456789'' ! (n mod 10)])"

definition fmt_d :: "int \<Rightarrow> string" where
  "fmt_d i = (if i < 0 then CHR ''-'' # digits (nat (- i)) else digits (nat i))"

section \<open>parseV2APIKey (services.go)\<close>

text \<open>
  \<open>for i, ch := range apiKey\<close> walks the string by UTF-8 code points: at byte index
  \<open>i\<close> it decodes one rune and its width, and an invalid sequence gives the rune
  \<open>0xFFFD\<close> with width 1. \<open>decodeRune\<close> is that decoding step on the rest of the
  string (Go's \<open>utf8.DecodeRuneInString\<close>): the lead byte fixes the size and the range
  accepted for the second byte.
\<close>

definition RuneError :: nat where
  "RuneError = 0xFFFD"

definition byte :: "char \<Rightarrow> nat" where
  "byte c = of_char c"

definition continuation :: "char \<Rightarrow> bool" where
  "continuation c = (0x80 \<le> byte c \<and> byte c \<le> 0xBF)"

fun decodeRune :: "string \<Rightarrow> nat \<times> nat" where
  "decodeRune [] = (RuneError, 0)"
| "decodeRune (c0 # s) =
     (let s0 = byte c0 in
      if s0 < 0x80 then (s0, 1)
      else if s0 < 0xC2 \<or> 0xF4 < s0 then (RuneError, 1)
      else
        let sz = (if s0 < 0xE0 then 2 else if s0 < 0xF0 then 3 else 4 :: nat);
            lo = (if s0 = 0xE0 then 0xA0 else if s0 = 0xF0 then 0x90 else 0x80 :: nat);
            hi = (if s0 = 0xED then 0x9F else if s0 = 0xF4 then 0x8F else 0xBF :: nat)
        in if Suc (length s) < sz then (RuneError, 1)
           else case s of
               [] \<Rightarrow> (RuneError, 1)
             | c1 # s' \<Rightarrow>
                 if byte c1 < lo \<or> hi < byte c1 then (RuneError, 1)
                 else if sz \<le> 2 then ((s0 mod 32) * 64 + byte c1 mod 64, 2)
                 else case s' of
                     [] \<Rightarrow> (RuneError, 1)
                   | c2 # s'' \<Rightarrow>
                       if \<not> continuation c2 then (RuneError, 1)
                       else if sz \<le> 3 then
                         ((s0 mod 16) * 4096 + (byte c1 mod 64) * 64 + byte c2 mod 64, 3)
                       else case s'' of
                           [] \<Rightarrow> (RuneError, 1)
                         | c3 # _ \<Rightarrow>
                             if \<not> continuation c3 then (RuneError, 1)
                             else ((s0 mod 8) * 262144 + (byte c1 mod 64) * 4096
                                     + (byte c2 mod 64) * 64 + byte c3 mod 64, 4))"

text \<open>
  The loop of \<open>parseV2APIKey\<close>, at byte index \<open>i\<close>: it returns \<open>apiKey[:i]\<close> and
  \<open>apiKey[i+1:]\<close> at the first rune equal to \<open>'+'\<close>, and the whole key twice when the
  string is exhausted.
\<close>

function rangeLoop :: "string \<Rightarrow> nat \<Rightarrow> string \<times> string" where
  "rangeLoop apiKey i =
     (if i < length apiKey then
        (if fst (decodeRune (drop i apiKey)) = byte (CHR ''+'')
         then (take i apiKey, drop (i + 1) apiKey)
         else rangeLoop apiKey (i + snd (decodeRune (drop i apiKey))))
      else (apiKey, apiKey))"
  by pat_completeness auto
termination
proof (relation "measure (\<lambda>(apiKey, i). length apiKey - i)")
  show "wf (measure (\<lambda>(apiKey, i). length apiKey - i))" by simp
next
  fix apiKey :: string and i :: nat
  assume lt: "i < length apiKey"
  then obtain c r where "drop i apiKey = c # r"
    by (cases "drop i apiKey") auto
  then have "1 \<le> snd (decodeRune (drop i apiKey))"
    by (simp add: Let_def split: list.splits)
  with lt show "((apiKey, i + snd (decodeRune (drop i apiKey))), (apiKey, i))
      \<in> measure (\<lambda>(apiKey, i). length apiKey - i)"
    by simp
qed

declare rangeLoop.simps [simp del]

definition parseV2APIKey :: "string \<Rightarrow> string \<times> string" where
  "parseV2APIKey apiKey = rangeLoop apiKey 0"


text \<open>
  The claim's own words for the result: the parts before and after the first \<open>'+'\<close>, or
  the key twice when it has none. \<open>parseV2APIKey\<close> is compared with it below.
\<close>

definition splitFirstPlus :: "string \<Rightarrow> string \<times> string" where
  "splitFirstPlus k =
     (if CHR ''+'' \<in> set k
      then (takeWhile (\<lambda>c. c \<noteq> CHR ''+'') k, tl (dropWhile (\<lambda>c. c \<noteq> CHR ''+'') k))
      else (k, k))"

section \<open>The world outside the program\<close>

text \<open>
  One outbound request, by its upstream and the parameters the code puts in its URL:
  the geocoding query; the places search with \<open>ll\<close>, \<open>client_id\<close> and \<open>client_secret\<close>
  (the other parameters are constants); the forecast with latitude and longitude; the
  rates request with the provider key and the base currency; the country directory.
\<close>

datatype request =
    NominatimSearch string
  | FoursquareExplore float64 float64 string string
  | OpenMeteoForecast float64 float64
  | ExchangeRateLatest string string
  | RestCountriesAll

text \<open>
  What \<open>http.Get\<close> (or \<open>client.Do\<close>) gives back: a non-nil error, which includes the
  geocoding client's 10 second timeout, or a response with its status code and body.
\<close>

datatype http_result = TransportError string | Response int string

text \<open>
  Everything the program reads from outside: the upstream servers, the process
  environment, and \<open>encoding/json\<close> decoding a body into each of the five upstream
  types (\<open>Inl\<close> is the decoder's error message). The decoders are parameters: the
  library is not part of the repository. The answer to a request is a function of
  the request; within one handler no request is issued twice, except that the two
  geocoding requests of the city bundle are equal when the country is empty.
\<close>

record world =
  httpGet :: "request \<Rightarrow> http_result"
  Getenv :: "string \<Rightarrow> string"
  decodeNominatim :: "string \<Rightarrow> string + NominatimResult list"
  decodeFoursquare :: "string \<Rightarrow> string + FoursquareV2Response"
  decodeOpenMeteo :: "string \<Rightarrow> string + OpenMeteoResponse"
  decodeExchangeRate :: "string \<Rightarrow> string + ExchangeRateResponse"
  decodeRestCountries :: "string \<Rightarrow> string + RestCountry list"

text \<open>The requests a function has issued, in order.\<close>

type_synonym trace = "request list"

section \<open>Upstream adapters (services.go)\<close>

definition geocodeCity :: "world \<Rightarrow> string \<Rightarrow> string \<Rightarrow> (go_error + float64 \<times> float64) \<times> trace" where
  "geocodeCity w cityName country =
     (let query = (if country \<noteq> [] then cityName @ '', '' @ country else cityName);
          req = NominatimSearch query
      in case httpGet w req of
           TransportError e \<Rightarrow> (Inl (LibError e), [req])
         | Response code body \<Rightarrow>
             (case decodeNominatim w body of
                Inl e \<Rightarrow> (Inl (LibError e), [req])
              | Inr results \<Rightarrow>
                  (case results of
                     [] \<Rightarrow> (Inl (Errorf (''location not found: '' @ query)), [req])
                   | r # _ \<Rightarrow> (Inr (Nom_Lat r, Nom_Lon r), [req]))))"

definition toLandmark :: "FsItem \<Rightarrow> Landmark" where
  "toLandmark item =
     (let venue = Item_Venue item
      in \<lparr>Landmark_Name = Venue_Name venue,
          Landmark_Address = Loc_Address (Venue_Location venue),
          Landmark_Latitude = Loc_Lat (Venue_Location venue),
          Landmark_Longitude = Loc_Lng (Venue_Location venue),
          Landmark_Rating = Venue_Rating venue\<rparr>)"

text \<open>The loop \<open>for _, item := range ...Groups[0].Items\<close>, appending to \<open>landmarks\<close>.\<close>

fun appendLandmarks :: "Landmark list \<Rightarrow> FsItem list \<Rightarrow> Landmark list" where
  "appendLandmarks landmarks [] = landmarks"
| "appendLandmarks landmarks (item # items) = appendLandmarks (landmarks @ [toLandmark item]) items"

definition convertLandmarks :: "FoursquareV2Response \<Rightarrow> Landmark list" where
  "convertLandmarks fsResponse =
     (case Resp_Groups (FS_Response fsResponse) of
        [] \<Rightarrow> []
      | group0 # _ \<Rightarrow> appendLandmarks [] (Group_Items group0))"

definition fetchLandmarksFromFoursquare ::
    "world \<Rightarrow> string \<Rightarrow> string \<Rightarrow> (go_error + Landmark list) \<times> trace" where
  "fetchLandmarksFromFoursquare w cityName country =
     (case geocodeCity w cityName country of
        (Inl err, t) \<Rightarrow> (Inl (Wrapf ''geocoding failed: '' err), t)
      | (Inr (lat, lon), t) \<Rightarrow>
          (let apiKey = Getenv w ''FOURSQUARE_API_KEY'' in
           if apiKey = [] then (Inl (Errorf ''FOURSQUARE_API_KEY not set''), t)
           else
             (let req = FoursquareExplore lat lon (fst (parseV2APIKey apiKey))
                          (snd (parseV2APIKey apiKey))
              in case httpGet w req of
                   TransportError e \<Rightarrow> (Inl (LibError e), t @ [req])
                 | Response code body \<Rightarrow>
                     if code \<noteq> 200
                     then (Inl (Errorf (''foursquare API error: '' @ fmt_d code @ '' - '' @ body)),
                           t @ [req])
                     else (case decodeFoursquare w body of
                             Inl e \<Rightarrow> (Inl (LibError e), t @ [req])
                           | Inr fsResponse \<Rightarrow> (Inr (convertLandmarks fsResponse), t @ [req])))))"

text \<open>
  The loop \<open>for i := range weatherResponse.Hourly.Time\<close> over the indices still to
  visit. Go checks every index expression; the four of the composite literal are
  evaluated in the order written, and the first one out of range panics.
  \<open>forecastAt\<close> is the composite literal once all four are in range.
\<close>

definition forecastAt :: "OpenMeteoHourly \<Rightarrow> nat \<Rightarrow> HourlyForecast" where
  "forecastAt h i =
     \<lparr>Forecast_Time = OM_Time h ! i,
      Forecast_Temperature = OM_Temperature h ! i,
      Forecast_WindSpeed = OM_WindSpeed h ! i,
      Forecast_RelativeHumidity = OM_RelativeHumidity h ! i\<rparr>"

fun hourlyLoop :: "OpenMeteoHourly \<Rightarrow> nat list \<Rightarrow> HourlyForecast list \<Rightarrow> HourlyForecast list outcome" where
  "hourlyLoop h [] hourly = Returns hourly"
| "hourlyLoop h (i # is) hourly =
     (if length (OM_Time h) \<le> i then Panics (IndexOutOfRange i (length (OM_Time h)))
      else if length (OM_Temperature h) \<le> i
        then Panics (IndexOutOfRange i (length (OM_Temperature h)))
      else if length (OM_WindSpeed h) \<le> i
        then Panics (IndexOutOfRange i (length (OM_WindSpeed h)))
      else if length (OM_RelativeHumidity h) \<le> i
        then Panics (IndexOutOfRange i (length (OM_RelativeHumidity h)))
      else hourlyLoop h is (hourly @ [forecastAt h i]))"

definition fetchWeatherFromOpenMeteo ::
    "world \<Rightarrow> string \<Rightarrow> (go_error + WeatherData) outcome \<times> trace" where
  "fetchWeatherFromOpenMeteo w cityName =
     (case geocodeCity w cityName [] of
        (Inl err, t) \<Rightarrow> (Returns (Inl (Wrapf ''geocoding failed: '' err)), t)
      | (Inr (lat, lon), t) \<Rightarrow>
          (let req = OpenMeteoForecast lat lon
           in case httpGet w req of
                TransportError e \<Rightarrow> (Returns (Inl (LibError e)), t @ [req])
              | Response code body \<Rightarrow>
                  if code \<noteq> 200
                  then (Returns (Inl (Errorf (''open-meteo API error: '' @ fmt_d code @ '' - '' @ body))),
                        t @ [req])
                  else (case decodeOpenMeteo w body of
                          Inl e \<Rightarrow> (Returns (Inl (LibError e)), t @ [req])
                        | Inr weatherResponse \<Rightarrow>
                            (case hourlyLoop (OM_Hourly weatherResponse)
                                    [0 ..< length (OM_Time (OM_Hourly weatherResponse))] [] of
                               Panics p \<Rightarrow> (Panics p, t @ [req])
                             | Returns hourly \<Rightarrow>
                                 (Returns (Inr \<lparr>Weather_Latitude = lat,
                                                Weather_Longitude = lon,
                                                Weather_Hourly = hourly\<rparr>),
                                  t @ [req])))))"

definition fetchRatesFromExchangeAPI :: "world \<Rightarrow> string \<Rightarrow> (go_error + RatesData) \<times> trace" where
  "fetchRatesFromExchangeAPI w baseCurrency =
     (let apiKey = ''c04b66e4d1f1f147c60834b3'';
          req = ExchangeRateLatest apiKey baseCurrency
      in case httpGet w req of
           TransportError e \<Rightarrow> (Inl (LibError e), [req])
         | Response code body \<Rightarrow>
             if code \<noteq> 200
             then (Inl (Errorf (''exchange-rate API error: '' @ fmt_d code @ '' - '' @ body)), [req])
             else (case decodeExchangeRate w body of
                     Inl e \<Rightarrow> (Inl (LibError e), [req])
                   | Inr ratesResponse \<Rightarrow>
                       (Inr \<lparr>Rates_BaseCurrency = ER_BaseCode ratesResponse,
                             Rates_Rates = ER_ConversionRates ratesResponse,
                             Rates_Timestamp = Unix (ER_TimeLastUpdateUnix ratesResponse) 0\<rparr>,
                        [req])))"

text \<open>
  \<open>for code := range country.Currencies { currencyCode = code; break }\<close>: the first
  key visited, and the zero value \<open>""\<close> when the loop body never runs (a nil map or a
  map with no entry).
\<close>

definition firstCurrency :: "(string \<times> CurrencyInfo) list option \<Rightarrow> string" where
  "firstCurrency currencies =
     (case currencies of
        None \<Rightarrow> []
      | Some [] \<Rightarrow> []
      | Some ((code, _) # _) \<Rightarrow> code)"

text \<open>The loop over the decoded countries, with the variables \<open>cities\<close> and \<open>id\<close> (here \<open>id'\<close>).\<close>

fun citiesLoop :: "City list \<Rightarrow> int \<Rightarrow> RestCountry list \<Rightarrow> City list" where
  "citiesLoop cities id' [] = cities"
| "citiesLoop cities id' (country # countries) =
     (if length (RC_Capital country) = 0 \<or> RC_Currencies country = None
      then citiesLoop cities id' countries
      else citiesLoop
             (cities @ [\<lparr>City_ID = id',
                          City_Name = RC_Capital country ! 0,
                          City_ThreeLetterCode = RC_CCA3 country,
                          City_Currency = firstCurrency (RC_Currencies country),
                          City_Country = CN_Common (RC_Name country)\<rparr>])
             (id' + 1) countries)"

text \<open>
  The claim's words for the countries that are to be listed: those having both a
  capital and at least one currency entry.
\<close>

definition hasCapitalAndCurrency :: "RestCountry \<Rightarrow> bool" where
  "hasCapitalAndCurrency country =
     (RC_Capital country \<noteq> [] \<and>
      (case RC_Currencies country of None \<Rightarrow> False | Some kvs \<Rightarrow> kvs \<noteq> []))"

definition fetchCitiesFromRestCountries :: "world \<Rightarrow> (go_error + City list) \<times> trace" where
  "fetchCitiesFromRestCountries w =
     (let req = RestCountriesAll
      in case httpGet w req of
           TransportError e \<Rightarrow> (Inl (LibError e), [req])
         | Response code body \<Rightarrow>
             if code \<noteq> 200
             then (Inl (Errorf (''rest-countries API error: '' @ fmt_d code @ '' - '' @ body)), [req])
             else (case decodeRestCountries w body of
                     Inl e \<Rightarrow> (Inl (LibError e), [req])
                   | Inr countries \<Rightarrow> (Inr (citiesLoop [] 1 countries), [req])))"

section \<open>Request handlers (handlers.go)\<close>

text \<open>
  What a handler reads from the \<open>gin.Context\<close>: the path parameters (\<open>c.Param\<close> gives
  the first value bound to the name, or \<open>""\<close>) and the query string (\<open>c.Query\<close> gives
  the first value of the key, or \<open>""\<close> when the key is absent).
\<close>

record Context =
  Params :: "(string \<times> string) list"
  QueryValues :: "string \<Rightarrow> string list"

definition Param :: "Context \<Rightarrow> string \<Rightarrow> string" where
  "Param c key = (case map_of (Params c) key of None \<Rightarrow> [] | Some v \<Rightarrow> v)"

definition Query :: "Context \<Rightarrow> string \<Rightarrow> string" where
  "Query c key = (case QueryValues c key of [] \<Rightarrow> [] | v # _ \<Rightarrow> v)"

text \<open>
  A response written by \<open>c.JSON(code, obj)\<close>: the status code and the object, which is
  a \<open>gin.H\<close> (a map from field names to values) or, in \<open>GetRates\<close>, a value itself.
\<close>

datatype json_value =
    JString string
  | JInt int
  | JCities "City list"
  | JLandmarks "Landmark list"
  | JWeather WeatherData
  | JRates RatesData

datatype json_body = H "string \<rightharpoonup> json_value" | Obj json_value

record response =
  status :: int
  payload :: json_body

definition JSON :: "int \<Rightarrow> json_body \<Rightarrow> response" where
  "JSON code obj = \<lparr>status = code, payload = obj\<rparr>"

definition StatusOK :: int where "StatusOK = 200"
definition StatusBadRequest :: int where "StatusBadRequest = 400"
definition StatusInternalServerError :: int where "StatusInternalServerError = 500"

text \<open>
  A handler's result is the response it writes, or the panic that leaves it, with
  the requests issued on the way.
\<close>

definition GetCities :: "world \<Rightarrow> Context \<Rightarrow> response outcome \<times> trace" where
  "GetCities w c =
     (case fetchCitiesFromRestCountries w of
        (Inl err, t) \<Rightarrow>
          (Returns (JSON StatusInternalServerError
             (H [''error'' \<mapsto> JString ''Failed to fetch cities'',
                 ''message'' \<mapsto> JString (Error err)])), t)
      | (Inr cities, t) \<Rightarrow>
          (Returns (JSON StatusOK
             (H [''cities'' \<mapsto> JCities cities,
                 ''count'' \<mapsto> JInt (int (length cities))])), t))"

text \<open>
  The part of \<open>GetCityData\<close> after the three results are received: the map \<open>response\<close>
  and the three \<open>if err == nil\<close> statements.
\<close>

definition cityResponse ::
    "string \<Rightarrow> string \<Rightarrow> go_error + Landmark list \<Rightarrow> go_error + WeatherData
       \<Rightarrow> go_error + RatesData \<Rightarrow> response" where
  "cityResponse cityName country landmarksRes weatherRes ratesRes =
     (let response0 = [''city'' \<mapsto> JString cityName, ''country'' \<mapsto> JString country];
          response1 = (case landmarksRes of
                         Inr landmarks \<Rightarrow> response0(''landmarks'' \<mapsto> JLandmarks landmarks)
                       | Inl err \<Rightarrow> response0(''landmarks_error'' \<mapsto> JString (Error err)));
          response2 = (case weatherRes of
                         Inr weather \<Rightarrow> response1(''weather'' \<mapsto> JWeather weather)
                       | Inl err \<Rightarrow> response1(''weather_error'' \<mapsto> JString (Error err)));
          response3 = (case ratesRes of
                         Inr rates \<Rightarrow> response2(''rates'' \<mapsto> JRates rates)
                       | Inl err \<Rightarrow> response2(''rates_error'' \<mapsto> JString (Error err)))
      in JSON StatusOK (H response3))"

text \<open>
  \<open>GetCityData\<close> starts one goroutine per fetch and receives the three results in the
  order landmarks, weather, rates. A fetch that returns hands its result (value or
  error) to the handler. A panic in a goroutine is not recovered there, so it ends
  the program and no response is written: that is the outcome \<open>Panics\<close>. The trace
  lists the requests by goroutine; their real interleaving is not fixed.
\<close>

definition GetCityData :: "world \<Rightarrow> Context \<Rightarrow> response outcome \<times> trace" where
  "GetCityData w c =
     (let cityName = Param c ''name'';
          country = Param c ''country'';
          landmarksRun = fetchLandmarksFromFoursquare w cityName country;
          weatherRun = fetchWeatherFromOpenMeteo w cityName;
          ratesRun = fetchRatesFromExchangeAPI w ''USD'';
          t = snd landmarksRun @ snd weatherRun @ snd ratesRun
      in case fst weatherRun of
           Panics p \<Rightarrow> (Panics p, t)
         | Returns weatherRes \<Rightarrow>
             (Returns (cityResponse cityName country (fst landmarksRun) weatherRes (fst ratesRun)), t))"

definition GetLandmarks :: "world \<Rightarrow> Context \<Rightarrow> response outcome \<times> trace" where
  "GetLandmarks w c =
     (let cityName = Query c ''city'';
          country = Query c ''country''
      in if cityName = []
         then (Returns (JSON StatusBadRequest (H [''error'' \<mapsto> JString ''city parameter is required''])), [])
         else (case fetchLandmarksFromFoursquare w cityName country of
                 (Inl err, t) \<Rightarrow>
                   (Returns (JSON StatusInternalServerError
                      (H [''error'' \<mapsto> JString ''Failed to fetch landmarks'',
                          ''message'' \<mapsto> JString (Error err)])), t)
               | (Inr landmarks, t) \<Rightarrow>
                   (Returns (JSON StatusOK
                      (H [''landmarks'' \<mapsto> JLandmarks landmarks,
                          ''count'' \<mapsto> JInt (int (length landmarks))])), t)))"

definition GetWeather :: "world \<Rightarrow> Context \<Rightarrow> response outcome \<times> trace" where
  "GetWeather w c =
     (let cityName = Query c ''city''
      in if cityName = []
         then (Returns (JSON StatusBadRequest (H [''error'' \<mapsto> JString ''city parameter is required''])), [])
         else (case fetchWeatherFromOpenMeteo w cityName of
                 (Panics p, t) \<Rightarrow> (Panics p, t)
               | (Returns (Inl err), t) \<Rightarrow>
                   (Returns (JSON StatusInternalServerError
                      (H [''error'' \<mapsto> JString ''Failed to fetch weather'',
                          ''message'' \<mapsto> JString (Error err)])), t)
               | (Returns (Inr weather), t) \<Rightarrow>
                   (Returns (JSON StatusOK (H [''weather'' \<mapsto> JWeather weather])), t)))"

definition GetRates :: "world \<Rightarrow> Context \<Rightarrow> response outcome \<times> trace" where
  "GetRates w c =
     (let currency = Param c ''currency''
      in if currency = []
         then (Returns (JSON StatusBadRequest (H [''error'' \<mapsto> JString ''currency parameter is required''])), [])
         else (case fetchRatesFromExchangeAPI w currency of
                 (Inl err, t) \<Rightarrow>
                   (Returns (JSON StatusInternalServerError
                      (H [''error'' \<mapsto> JString ''Failed to fetch rates'',
                          ''message'' \<mapsto> JString (Error err)])), t)
               | (Inr rates, t) \<Rightarrow> (Returns (JSON StatusOK (Obj (JRates rates))), t)))"

section \<open>Example worlds\<close>

text \<open>
  Concrete upstream data for the examples below, taken from the fixtures of the
  repository's tests where they have one. Bodies are named rather than spelled out
  as JSON text, since decoding is a parameter; \<open>float64\<close> values are bit patterns
  (\<open>0x4049C0F27BB2FEC5\<close> is 51.5074).
\<close>

definition london :: NominatimResult where
  "london = \<lparr>Nom_Lat = 0x4049C0F27BB2FEC5, Nom_Lon = 0xBFC05BC01A36E2EB\<rparr>"

definition exNominatim :: "string \<Rightarrow> string + NominatimResult list" where
  "exNominatim b =
     (if b = ''[london]'' then Inr [london]
      else if b = ''[]'' then Inr []
      else Inl ''invalid character'')"

definition bigBen :: FsItem where
  "bigBen = \<lparr>Item_Venue = \<lparr>Venue_Name = ''Big Ben'', Venue_Rating = 0x4023000000000000,
       Venue_Location = \<lparr>Loc_Lat = 0x4049C016F0068DB9, Loc_Lng = 0xBFBFE5C91D14E3BD,
         Loc_Address = ''Westminster'', Loc_FormattedAddress = [''Westminster'', ''London'']\<rparr>\<rparr>\<rparr>"

definition towerBridge :: FsItem where
  "towerBridge = \<lparr>Item_Venue = \<lparr>Venue_Name = ''Tower Bridge'', Venue_Rating = 0x4023000000000000,
       Venue_Location = \<lparr>Loc_Lat = 0x4049C0B439581062, Loc_Lng = 0xBFB34D6A161E4F76,
         Loc_Address = ''Tower Bridge Rd'', Loc_FormattedAddress = []\<rparr>\<rparr>\<rparr>"

definition oneGroup :: FoursquareV2Response where
  "oneGroup = \<lparr>FS_Response = \<lparr>Resp_Groups = [\<lparr>Group_Items = [bigBen, towerBridge]\<rparr>]\<rparr>\<rparr>"

definition twoGroups :: FoursquareV2Response where
  "twoGroups =
     \<lparr>FS_Response = \<lparr>Resp_Groups = [\<lparr>Group_Items = [bigBen]\<rparr>, \<lparr>Group_Items = [towerBridge]\<rparr>]\<rparr>\<rparr>"

definition exFoursquare :: "string \<Rightarrow> string + FoursquareV2Response" where
  "exFoursquare b =
     (if b = ''one group'' then Inr oneGroup
      else if b = ''no group'' then Inr \<lparr>FS_Response = \<lparr>Resp_Groups = []\<rparr>\<rparr>
      else if b = ''two groups'' then Inr twoGroups
      else Inl ''invalid character'')"

text \<open>
  Three forecasts: four arrays of length 2; a time array of length 1 beside three of
  length 2; a time array of length 2 beside a temperature array of length 1.
\<close>

definition forecast2222 :: OpenMeteoResponse where
  "forecast2222 =
     \<lparr>OM_Latitude = 0x4049C0F27BB2FEC5, OM_Longitude = 0xBFC05BC01A36E2EB,
      OM_Hourly = \<lparr>OM_Time = [''2024-01-01T00:00'', ''2024-01-01T01:00''],
                   OM_Temperature = [0x4025000000000000, 0x4026666666666666],
                   OM_WindSpeed = [0x4015333333333333, 0x4018666666666666],
                   OM_RelativeHumidity = [75, 73]\<rparr>\<rparr>"

definition forecast1222 :: OpenMeteoResponse where
  "forecast1222 =
     \<lparr>OM_Latitude = 0x4049C0F27BB2FEC5, OM_Longitude = 0xBFC05BC01A36E2EB,
      OM_Hourly = \<lparr>OM_Time = [''2024-01-01T00:00''],
                   OM_Temperature = [0x4025000000000000, 0x4026666666666666],
                   OM_WindSpeed = [0x4015333333333333, 0x4018666666666666],
                   OM_RelativeHumidity = [75, 73]\<rparr>\<rparr>"

definition forecast2122 :: OpenMeteoResponse where
  "forecast2122 =
     \<lparr>OM_Latitude = 0x4049C0F27BB2FEC5, OM_Longitude = 0xBFC05BC01A36E2EB,
      OM_Hourly = \<lparr>OM_Time = [''2024-01-01T00:00'', ''2024-01-01T01:00''],
                   OM_Temperature = [0x4025000000000000],
                   OM_WindSpeed = [0x4015333333333333, 0x4018666666666666],
                   OM_RelativeHumidity = [75, 73]\<rparr>\<rparr>"

definition exOpenMeteo :: "string \<Rightarrow> string + OpenMeteoResponse" where
  "exOpenMeteo b =
     (if b = ''hourly 2 2 2 2'' then Inr forecast2222
      else if b = ''hourly 1 2 2 2'' then Inr forecast1222
      else if b = ''hourly 2 1 2 2'' then Inr forecast2122
      else Inl ''invalid character'')"

definition ratesError :: ExchangeRateResponse where
  "ratesError = \<lparr>ER_Result = ''error'', ER_BaseCode = [],
                  ER_ConversionRates = Map.empty, ER_TimeLastUpdateUnix = 0\<rparr>"

definition exExchangeRate :: "string \<Rightarrow> string + ExchangeRateResponse" where
  "exExchangeRate b =
     (if b = ''success'' then
        Inr \<lparr>ER_Result = ''success'', ER_BaseCode = ''USD'',
             ER_ConversionRates = [''EUR'' \<mapsto> 0x3FEB333333333333, ''GBP'' \<mapsto> 0x3FE75C28F5C28F5C],
             ER_TimeLastUpdateUnix = 1609459200\<rparr>
      else if b = ''error'' then Inr ratesError
      else Inl ''invalid character'')"

text \<open>
  A directory of four countries: one with a capital and one currency; one with no
  capital; one whose currency object is present but empty; one whose only capital is
  the empty string.
\<close>

definition exCountries :: "RestCountry list" where
  "exCountries =
     [\<lparr>RC_Name = \<lparr>CN_Common = ''United Kingdom'',
                    CN_Official = ''United Kingdom of Great Britain and Northern Ireland''\<rparr>,
       RC_CCA3 = ''GBR'', RC_Capital = [''London''],
       RC_Currencies = Some [(''GBP'', \<lparr>Cur_Name = ''British pound'', Cur_Symbol = ''GBP''\<rparr>)]\<rparr>,
      \<lparr>RC_Name = \<lparr>CN_Common = ''Antarctica'', CN_Official = ''Antarctica''\<rparr>,
       RC_CCA3 = ''ATA'', RC_Capital = [],
       RC_Currencies = Some [(''USD'', \<lparr>Cur_Name = ''United States dollar'', Cur_Symbol = ''USD''\<rparr>)]\<rparr>,
      \<lparr>RC_Name = \<lparr>CN_Common = ''Freedonia'', CN_Official = ''Republic of Freedonia''\<rparr>,
       RC_CCA3 = ''FRD'', RC_Capital = [''Fredville''],
       RC_Currencies = Some []\<rparr>,
      \<lparr>RC_Name = \<lparr>CN_Common = ''Sylvania'', CN_Official = ''Sylvania''\<rparr>,
       RC_CCA3 = ''SYL'', RC_Capital = [[]],
       RC_Currencies = Some [(''EUR'', \<lparr>Cur_Name = ''Euro'', Cur_Symbol = ''EUR''\<rparr>)]\<rparr>]"

definition exRestCountries :: "string \<Rightarrow> string + RestCountry list" where
  "exRestCountries b =
     (if b = ''four countries'' then Inr exCountries
      else if b = ''two countries'' then Inr (take 2 exCountries)
      else Inl ''invalid character'')"

text \<open>
  The example world around an upstream: the credential of the README in the
  environment, and the decoders above.
\<close>

definition exWorld :: "(request \<Rightarrow> http_result) \<Rightarrow> world" where
  "exWorld upstream =
     \<lparr>httpGet = upstream,
      Getenv = (\<lambda>k. if k = ''FOURSQUARE_API_KEY'' then ''CLIENT_ID+CLIENT_SECRET'' else []),
      decodeNominatim = exNominatim,
      decodeFoursquare = exFoursquare,
      decodeOpenMeteo = exOpenMeteo,
      decodeExchangeRate = exExchangeRate,
      decodeRestCountries = exRestCountries\<rparr>"

text \<open>
  Upstreams. In \<open>upstreamRatesDown\<close> geocoding, places and forecast answer 200 and the
  rates service answers 500 (the partial-failure scenario). \<open>upstreamStatus\<close> answers
  every request with the given status and body.
\<close>

definition upstreamRatesDown :: "request \<Rightarrow> http_result" where
  "upstreamRatesDown req =
     (case req of
        NominatimSearch q \<Rightarrow> Response 200 ''[london]''
      | FoursquareExplore lat lon cid secret \<Rightarrow> Response 200 ''one group''
      | OpenMeteoForecast lat lon \<Rightarrow> Response 200 ''hourly 2 2 2 2''
      | ExchangeRateLatest key base \<Rightarrow> Response 500 ''quota-reached''
      | RestCountriesAll \<Rightarrow> Response 200 ''four countries'')"

definition upstreamWith :: "string \<Rightarrow> string \<Rightarrow> string \<Rightarrow> string \<Rightarrow> request \<Rightarrow> http_result" where
  "upstreamWith places forecast rates countries req =
     (case req of
        NominatimSearch q \<Rightarrow> Response 200 ''[london]''
      | FoursquareExplore lat lon cid secret \<Rightarrow> Response 200 places
      | OpenMeteoForecast lat lon \<Rightarrow> Response 200 forecast
      | ExchangeRateLatest key base \<Rightarrow> Response 200 rates
      | RestCountriesAll \<Rightarrow> Response 200 countries)"

definition upstreamStatus :: "int \<Rightarrow> string \<Rightarrow> request \<Rightarrow> http_result" where
  "upstreamStatus code b req = Response code b"

definition londonRequest :: Context where
  "londonRequest = \<lparr>Params = [(''name'', ''London''), (''country'', ''England'')],
                     QueryValues = (\<lambda>k. [])\<rparr>"

section \<open>parseV2APIKey splits at the first plus sign\<close>

lemma decodeRune_width: "s \<noteq> [] \<Longrightarrow> 1 \<le> snd (decodeRune s) \<and> snd (decodeRune s) \<le> length s"
  by (cases s) (auto simp: Let_def split: list.splits)

lemma byte_plus: "byte (CHR ''+'') = 43"
  by (simp add: byte_def)

lemma byte_eq_plus: "byte c = 43 \<longleftrightarrow> c = CHR ''+''"
proof -
  have "byte c = byte (CHR ''+'') \<longleftrightarrow> c = CHR ''+''"
    unfolding byte_def by (metis char_of_def of_char_of char_of_char)
  then show ?thesis by (simp add: byte_plus)
qed

lemma mod_window:
  fixes a :: nat
  assumes "q * m \<le> a" and "a < q * m + m"
  shows "a mod m = a - q * m"
proof -
  have "a = (a - q * m) + q * m" using assms by simp
  then have "a mod m = ((a - q * m) + q * m) mod m" by simp
  also have "\<dots> = (a - q * m) mod m" by (rule mod_mult_self1)
  also have "\<dots> = a - q * m" using assms by simp
  finally show ?thesis .
qed

lemma m32: "194 \<le> a \<Longrightarrow> a < 224 \<Longrightarrow> 2 \<le> (a::nat) mod 32"
  using mod_window [of 6 32 a] by simp

lemma m16: "225 \<le> a \<Longrightarrow> a < 240 \<Longrightarrow> 1 \<le> (a::nat) mod 16"
  using mod_window [of 14 16 a] by simp

lemma m8: "241 \<le> a \<Longrightarrow> a \<le> 244 \<Longrightarrow> 1 \<le> (a::nat) mod 8"
  using mod_window [of 30 8 a] by simp

lemma m64a: "160 \<le> b \<Longrightarrow> b \<le> 191 \<Longrightarrow> 32 \<le> (b::nat) mod 64"
  using mod_window [of 2 64 b] by simp

lemma m64b: "144 \<le> b \<Longrightarrow> b \<le> 191 \<Longrightarrow> 16 \<le> (b::nat) mod 64"
  using mod_window [of 2 64 b] by simp

lemma rune2: "194 \<le> a \<Longrightarrow> a < 224 \<Longrightarrow> 128 \<le> (a mod 32) * 64 + (b::nat)"
  using m32 [of a] by simp

lemma rune3':
  "160 \<le> b \<Longrightarrow> b \<le> 191 \<Longrightarrow> 128 \<le> (b mod 64) * 64 + (c::nat)"
  using m64a [of b] by simp

lemma rune3:
  "225 \<le> a \<Longrightarrow> a < 240 \<Longrightarrow> 128 \<le> (a mod 16) * 4096 + b + (c::nat)"
  using m16 [of a] by simp

lemma rune4':
  "144 \<le> b \<Longrightarrow> b \<le> 191 \<Longrightarrow> 128 \<le> (b mod 64) * 4096 + c + (d::nat)"
  using m64b [of b] by simp

lemma rune4:
  "241 \<le> a \<Longrightarrow> a \<le> 244 \<Longrightarrow> 128 \<le> (a mod 8) * 262144 + b + c + (d::nat)"
  using m8 [of a] by simp

lemma decodeRune_nonascii:
  assumes "\<not> byte c < 0x80"
  shows "128 \<le> fst (decodeRune (c # s))"
proof (cases s)
  case Nil
  with assms show ?thesis by (simp add: Let_def RuneError_def)
next
  case s1: (Cons c1 t)
  show ?thesis
  proof (cases t)
    case Nil
    with assms s1 show ?thesis
      by (simp add: Let_def RuneError_def rune2)
  next
    case s2: (Cons c2 u)
    show ?thesis
    proof (cases u)
      case Nil
      with assms s1 s2 show ?thesis
        by (simp add: Let_def RuneError_def rune2 rune3 rune3')
    next
      case s3: (Cons c3 v)
      with assms s1 s2 show ?thesis
        by (simp add: Let_def RuneError_def rune2 rune3 rune3' rune4 rune4')
    qed
  qed
qed


lemma width_le4: "snd (decodeRune s) \<le> 4"
  by (cases s) (simp_all add: Let_def split: list.splits)

lemma width2:
  assumes "2 \<le> snd (decodeRune (c # c1 # t))"
  shows "128 \<le> byte c1"
proof (rule ccontr)
  assume "\<not> 128 \<le> byte c1"
  then have "snd (decodeRune (c # c1 # t)) = 1"
    by (simp add: Let_def)
  with assms show False by simp
qed

lemma width3:
  assumes "3 \<le> snd (decodeRune (c # c1 # c2 # t))"
  shows "128 \<le> byte c2"
proof (rule ccontr)
  assume "\<not> 128 \<le> byte c2"
  then have "\<not> continuation c2" by (simp add: continuation_def)
  then have "snd (decodeRune (c # c1 # c2 # t)) \<le> 2"
    by (simp add: Let_def)
  with assms show False by simp
qed

lemma width4:
  assumes "4 \<le> snd (decodeRune (c # c1 # c2 # c3 # t))"
  shows "128 \<le> byte c3"
proof (rule ccontr)
  assume "\<not> 128 \<le> byte c3"
  then have "\<not> continuation c3" by (simp add: continuation_def)
  then have "snd (decodeRune (c # c1 # c2 # c3 # t)) \<le> 3"
    by (simp add: Let_def)
  with assms show False by simp
qed


declare decodeRune.simps [simp del]

lemma decodeRune_skipped:
  assumes "x \<in> set (take (snd (decodeRune (c # s)) - 1) s)"
  shows "128 \<le> byte x"
proof -
  let ?w = "snd (decodeRune (c # s))"
  from assms obtain j where j: "j < ?w - 1" "j < length s" "x = s ! j"
    by (auto simp: in_set_conv_nth)
  have "?w \<le> 4" by (rule width_le4)
  with j(1) consider "j = 0" | "j = 1" | "j = 2" by linarith
  then show ?thesis
  proof cases
    case 1
    with j(2) obtain c1 t where s: "s = c1 # t" by (cases s) auto
    from j(1) 1 have "2 \<le> snd (decodeRune (c # c1 # t))" unfolding s by simp
    then have "128 \<le> byte c1" by (rule width2)
    with j(3) 1 s show ?thesis by simp
  next
    case 2
    with j(2) obtain c1 c2 t where s: "s = c1 # c2 # t"
      by (cases s; cases "tl s") auto
    from j(1) 2 have "3 \<le> snd (decodeRune (c # c1 # c2 # t))" unfolding s by simp
    then have "128 \<le> byte c2" by (rule width3)
    with j(3) 2 s show ?thesis by simp
  next
    case 3
    with j(2) obtain c1 c2 c3 t where s: "s = c1 # c2 # c3 # t"
      by (cases s; cases "tl s"; cases "tl (tl s)") auto
    from j(1) 3 have "4 \<le> snd (decodeRune (c # c1 # c2 # c3 # t))" unfolding s by simp
    then have "128 \<le> byte c3" by (rule width4)
    with j(3) 3 s show ?thesis by simp
  qed
qed

lemma decodeRune_plus:
  "fst (decodeRune (c # s)) = byte (CHR ''+'') \<longleftrightarrow> c = CHR ''+''"
proof (cases "byte c < 0x80")
  case True
  then show ?thesis by (simp add: decodeRune.simps byte_eq_plus byte_plus)
next
  case False
  then have "c \<noteq> CHR ''+''" using byte_eq_plus [of c] by auto
  moreover from False have "fst (decodeRune (c # s)) \<noteq> 43"
    using decodeRune_nonascii [of c s] by simp
  ultimately show ?thesis by (simp add: byte_plus)
qed

lemma no_plus_in_rune:
  assumes "s \<noteq> []" and "fst (decodeRune s) \<noteq> byte (CHR ''+'')"
  shows "CHR ''+'' \<notin> set (take (snd (decodeRune s)) s)"
proof -
  from assms(1) obtain c r where s: "s = c # r" by (cases s) auto
  from assms(2) have c: "c \<noteq> CHR ''+''"
    unfolding s using decodeRune_plus [of c r] by blast
  have w: "1 \<le> snd (decodeRune s)" using decodeRune_width [OF assms(1)] by blast
  then have "take (snd (decodeRune s)) s = c # take (snd (decodeRune s) - 1) r"
    unfolding s by (simp add: take_Cons')
  moreover have "CHR ''+'' \<notin> set (take (snd (decodeRune s) - 1) r)"
  proof
    assume "CHR ''+'' \<in> set (take (snd (decodeRune s) - 1) r)"
    then have "128 \<le> byte (CHR ''+'')" unfolding s by (rule decodeRune_skipped)
    then show False by (simp add: byte_plus)
  qed
  ultimately show ?thesis using c by simp
qed

lemma rangeLoop_spec:
  "i \<le> length k \<Longrightarrow> CHR ''+'' \<notin> set (take i k) \<Longrightarrow> rangeLoop k i = splitFirstPlus k"
proof (induction k i rule: rangeLoop.induct)
  case (1 apiKey i)
  show ?case
  proof (cases "i < length apiKey")
    case False
    with "1.prems" have "CHR ''+'' \<notin> set apiKey" by simp
    with False show ?thesis by (subst rangeLoop.simps) (simp add: splitFirstPlus_def)
  next
    case lt: True
    then have ne: "drop i apiKey \<noteq> []" by simp
    have dr: "drop i apiKey = apiKey ! i # drop (Suc i) apiKey"
      using lt by (simp add: Cons_nth_drop_Suc)
    have split: "apiKey = take i apiKey @ apiKey ! i # drop (Suc i) apiKey"
      using lt by (simp add: id_take_nth_drop [symmetric])
    show ?thesis
    proof (cases "fst (decodeRune (drop i apiKey)) = byte (CHR ''+'')")
      case True
      then have plus: "apiKey ! i = CHR ''+''"
        using decodeRune_plus [of "apiKey ! i" "drop (Suc i) apiKey"] unfolding dr by blast
      have "CHR ''+'' \<in> set apiKey" using plus lt nth_mem by metis
      moreover have "takeWhile (\<lambda>c. c \<noteq> CHR ''+'') apiKey = take i apiKey"
        using "1.prems"(2) plus
        by (subst split) (auto simp: takeWhile_tail)
      moreover have "dropWhile (\<lambda>c. c \<noteq> CHR ''+'') apiKey = apiKey ! i # drop (Suc i) apiKey"
        using "1.prems"(2) plus
        by (subst split) (auto simp: dropWhile_append3)
      ultimately have "splitFirstPlus apiKey = (take i apiKey, drop (i + 1) apiKey)"
        by (simp add: splitFirstPlus_def)
      moreover have "rangeLoop apiKey i = (take i apiKey, drop (i + 1) apiKey)"
        using lt True by (subst rangeLoop.simps) simp
      ultimately show ?thesis by simp
    next
      case False
      let ?w = "snd (decodeRune (drop i apiKey))"
      have w: "1 \<le> ?w \<and> ?w \<le> length (drop i apiKey)"
        using decodeRune_width [OF ne] .
      then have le: "i + ?w \<le> length apiKey" using lt by auto
      have "take (i + ?w) apiKey = take i apiKey @ take ?w (drop i apiKey)"
        by (simp add: take_add)
      moreover have "CHR ''+'' \<notin> set (take ?w (drop i apiKey))"
        using no_plus_in_rune [OF ne False] .
      ultimately have "CHR ''+'' \<notin> set (take (i + ?w) apiKey)"
        using "1.prems"(2) by simp
      with "1.IH" [OF lt False le] have "rangeLoop apiKey (i + ?w) = splitFirstPlus apiKey" .
      moreover have "rangeLoop apiKey i = rangeLoop apiKey (i + ?w)"
        using lt False by (subst rangeLoop.simps) simp
      ultimately show ?thesis by simp
    qed
  qed
qed

lemma parseV2APIKey_split: "parseV2APIKey k = splitFirstPlus k"
  unfolding parseV2APIKey_def by (rule rangeLoop_spec) simp_all

lemma parseV2APIKey_at_first_plus:
  assumes "CHR ''+'' \<notin> set pre"
  shows "parseV2APIKey (pre @ CHR ''+'' # post) = (pre, post)"
proof -
  let ?P = "\<lambda>c. c \<noteq> CHR ''+''"
  have "dropWhile ?P (pre @ CHR ''+'' # post) = dropWhile ?P (CHR ''+'' # post)"
    by (rule dropWhile_append2) (use assms in auto)
  moreover have "takeWhile ?P (pre @ CHR ''+'' # post) = pre"
    using assms by (auto simp: takeWhile_tail)
  ultimately show ?thesis
    by (simp add: parseV2APIKey_split splitFirstPlus_def)
qed


text \<open>
  Claim C5. \<open>parseV2APIKey\<close> splits its input on the first \<open>'+'\<close> only. On the four
  inputs of the repository's test table it returns \<open>("CLIENT_ID", "CLIENT_SECRET")\<close>,
  \<open>("SINGLE_KEY", "SINGLE_KEY")\<close>, \<open>("ID", "SECRET+EXTRA")\<close> and \<open>("", "")\<close>. In general,
  for every input with a \<open>'+'\<close> the result is the part before the first \<open>'+'\<close> and the part
  after it, and for every input without \<open>'+'\<close> both components are the input. This holds
  for every byte string, valid UTF-8 or not, although the loop walks it rune by rune.
\<close>

theorem parseV2APIKey_splits_on_first_plus:
  "parseV2APIKey ''CLIENT_ID+CLIENT_SECRET'' = (''CLIENT_ID'', ''CLIENT_SECRET'') \<and>
   parseV2APIKey ''SINGLE_KEY'' = (''SINGLE_KEY'', ''SINGLE_KEY'') \<and>
   parseV2APIKey ''ID+SECRET+EXTRA'' = (''ID'', ''SECRET+EXTRA'') \<and>
   parseV2APIKey [] = ([], []) \<and>
   (\<forall>pre post. CHR ''+'' \<notin> set pre \<longrightarrow> parseV2APIKey (pre @ CHR ''+'' # post) = (pre, post)) \<and>
   (\<forall>k. CHR ''+'' \<notin> set k \<longrightarrow> parseV2APIKey k = (k, k))"
proof -
  have e1: "parseV2APIKey ''CLIENT_ID+CLIENT_SECRET'' = (''CLIENT_ID'', ''CLIENT_SECRET'')"
    by (simp add: parseV2APIKey_def rangeLoop.simps decodeRune.simps byte_def)
  have e2: "parseV2APIKey ''SINGLE_KEY'' = (''SINGLE_KEY'', ''SINGLE_KEY'')"
    by (simp add: parseV2APIKey_def rangeLoop.simps decodeRune.simps byte_def)
  have e3: "parseV2APIKey ''ID+SECRET+EXTRA'' = (''ID'', ''SECRET+EXTRA'')"
    by (simp add: parseV2APIKey_def rangeLoop.simps decodeRune.simps byte_def)
  have e4: "parseV2APIKey [] = ([], [])"
    by (simp add: parseV2APIKey_def rangeLoop.simps)
  have g1: "\<forall>pre post. CHR ''+'' \<notin> set pre \<longrightarrow> parseV2APIKey (pre @ CHR ''+'' # post) = (pre, post)"
    by (simp add: parseV2APIKey_at_first_plus)
  have g2: "\<forall>k. CHR ''+'' \<notin> set k \<longrightarrow> parseV2APIKey k = (k, k)"
    by (simp add: parseV2APIKey_split splitFirstPlus_def)
  from e1 e2 e3 e4 g1 g2 show ?thesis by blast
qed

text \<open>
  The theorem at a key that is not valid UTF-8: the bytes \<open>0xC3 0x28\<close> (a two-byte lead
  followed by \<open>'('\<close>), then \<open>'+'\<close>, then \<open>a+b\<close>; and at a key with no \<open>'+'\<close>.
\<close>

theorem parseV2APIKey_splits_on_first_plus_witness:
  "CHR ''+'' \<notin> set [CHR 0xC3, CHR ''(''] \<and>
   parseV2APIKey ([CHR 0xC3, CHR ''(''] @ CHR ''+'' # ''a+b'') = ([CHR 0xC3, CHR ''(''], ''a+b'') \<and>
   CHR ''+'' \<notin> set ''SINGLE_KEY'' \<and>
   parseV2APIKey ''SINGLE_KEY'' = (''SINGLE_KEY'', ''SINGLE_KEY'')"
proof -
  have h1: "CHR ''+'' \<notin> set [CHR 0xC3, CHR ''('']" by simp
  have h2: "CHR ''+'' \<notin> set ''SINGLE_KEY''" by simp
  from parseV2APIKey_splits_on_first_plus
  have "parseV2APIKey ([CHR 0xC3, CHR ''(''] @ CHR ''+'' # ''a+b'') = ([CHR 0xC3, CHR ''(''], ''a+b'')"
    using h1 by blast
  with h1 h2 parseV2APIKey_splits_on_first_plus show ?thesis by blast
qed

section \<open>The weather zip\<close>

lemmas example_defs =
  exWorld_def exNominatim_def exFoursquare_def exOpenMeteo_def exExchangeRate_def
  exRestCountries_def upstreamRatesDown_def upstreamWith_def upstreamStatus_def
  london_def londonRequest_def

lemma hourlyLoop_in_range:
  assumes "\<forall>i \<in> set is. i < length (OM_Time h) \<and> i < length (OM_Temperature h)
             \<and> i < length (OM_WindSpeed h) \<and> i < length (OM_RelativeHumidity h)"
  shows "hourlyLoop h is hourly = Returns (hourly @ map (forecastAt h) is)"
  using assms by (induction "is" arbitrary: hourly) auto

lemma hourlyLoop_out_of_range:
  assumes "\<exists>i \<in> set is. \<not> (i < length (OM_Time h) \<and> i < length (OM_Temperature h)
             \<and> i < length (OM_WindSpeed h) \<and> i < length (OM_RelativeHumidity h))"
  shows "\<exists>p. hourlyLoop h is hourly = Panics p"
  using assms by (induction "is" arbitrary: hourly) auto

text \<open>
  The adapter once geocoding has given a coordinate and the forecast request has been
  answered with status 200 and a body that decodes: what is left is the loop.
\<close>

lemma fetchWeather_decoded:
  assumes geo: "fst (geocodeCity w cityName []) = Inr (lat, lon)"
      and get: "httpGet w (OpenMeteoForecast lat lon) = Response 200 body"
      and dec: "decodeOpenMeteo w body = Inr r"
  shows "fst (fetchWeatherFromOpenMeteo w cityName) =
           (case hourlyLoop (OM_Hourly r) [0 ..< length (OM_Time (OM_Hourly r))] [] of
              Panics p \<Rightarrow> Panics p
            | Returns hourly \<Rightarrow>
                Returns (Inr \<lparr>Weather_Latitude = lat, Weather_Longitude = lon,
                               Weather_Hourly = hourly\<rparr>))"
proof -
  obtain t where "geocodeCity w cityName [] = (Inr (lat, lon), t)"
    using geo by (cases "geocodeCity w cityName []") auto
  then show ?thesis
    using get dec
    by (simp add: fetchWeatherFromOpenMeteo_def split: outcome.splits)
qed

lemma zip_when_time_is_covered:
  assumes geo: "fst (geocodeCity w cityName []) = Inr (lat, lon)"
      and get: "httpGet w (OpenMeteoForecast lat lon) = Response 200 body"
      and dec: "decodeOpenMeteo w body = Inr r"
      and t: "length (OM_Time (OM_Hourly r)) \<le> length (OM_Temperature (OM_Hourly r))"
      and ws: "length (OM_Time (OM_Hourly r)) \<le> length (OM_WindSpeed (OM_Hourly r))"
      and rh: "length (OM_Time (OM_Hourly r)) \<le> length (OM_RelativeHumidity (OM_Hourly r))"
  shows "fst (fetchWeatherFromOpenMeteo w cityName) =
           Returns (Inr \<lparr>Weather_Latitude = lat, Weather_Longitude = lon,
              Weather_Hourly = map (forecastAt (OM_Hourly r)) [0 ..< length (OM_Time (OM_Hourly r))]\<rparr>)"
proof -
  let ?h = "OM_Hourly r"
  have "\<forall>i \<in> set [0 ..< length (OM_Time ?h)]. i < length (OM_Time ?h)
          \<and> i < length (OM_Temperature ?h) \<and> i < length (OM_WindSpeed ?h)
          \<and> i < length (OM_RelativeHumidity ?h)"
    using t ws rh by auto
  then have "hourlyLoop ?h [0 ..< length (OM_Time ?h)] [] =
               Returns ([] @ map (forecastAt ?h) [0 ..< length (OM_Time ?h)])"
    by (rule hourlyLoop_in_range)
  then show ?thesis
    by (simp add: fetchWeather_decoded [OF geo get dec])
qed

lemma zip_when_time_is_longer:
  assumes geo: "fst (geocodeCity w cityName []) = Inr (lat, lon)"
      and get: "httpGet w (OpenMeteoForecast lat lon) = Response 200 body"
      and dec: "decodeOpenMeteo w body = Inr r"
      and short: "length (OM_Temperature (OM_Hourly r)) < length (OM_Time (OM_Hourly r))
                \<or> length (OM_WindSpeed (OM_Hourly r)) < length (OM_Time (OM_Hourly r))
                \<or> length (OM_RelativeHumidity (OM_Hourly r)) < length (OM_Time (OM_Hourly r))"
  shows "\<exists>p. fst (fetchWeatherFromOpenMeteo w cityName) = Panics p"
proof -
  let ?h = "OM_Hourly r"
  let ?n = "length (OM_Time ?h)"
  from short have "0 < ?n" by auto
  then have last: "?n - 1 \<in> set [0 ..< ?n]" by simp
  have "\<not> (?n - 1 < length (OM_Time ?h) \<and> ?n - 1 < length (OM_Temperature ?h)
           \<and> ?n - 1 < length (OM_WindSpeed ?h) \<and> ?n - 1 < length (OM_RelativeHumidity ?h))"
    using short by linarith
  with last have "\<exists>i \<in> set [0 ..< ?n]. \<not> (i < length (OM_Time ?h)
           \<and> i < length (OM_Temperature ?h) \<and> i < length (OM_WindSpeed ?h)
           \<and> i < length (OM_RelativeHumidity ?h))"
    by blast
  then obtain p where "hourlyLoop ?h [0 ..< ?n] [] = Panics p"
    using hourlyLoop_out_of_range by blast
  then show ?thesis
    by (simp add: fetchWeather_decoded [OF geo get dec])
qed

text \<open>
  Claim C4. For every weather upstream response (geocoding gave a coordinate, the
  forecast request was answered with status 200, the body decoded) whose four arrays
  time, temperature, wind speed and relative humidity all have the same length \<open>N\<close>,
  \<open>fetchWeatherFromOpenMeteo\<close> returns a WeatherData whose hourly sequence has exactly
  \<open>N\<close> entries, and entry \<open>i\<close> holds the \<open>i\<close>-th element of each of the four arrays.
\<close>

theorem weather_zip_equal_lengths:
  assumes "fst (geocodeCity w cityName []) = Inr (lat, lon)"
      and "httpGet w (OpenMeteoForecast lat lon) = Response 200 body"
      and "decodeOpenMeteo w body = Inr r"
      and "length (OM_Time (OM_Hourly r)) = N"
      and "length (OM_Temperature (OM_Hourly r)) = N"
      and "length (OM_WindSpeed (OM_Hourly r)) = N"
      and "length (OM_RelativeHumidity (OM_Hourly r)) = N"
  shows "\<exists>weather. fst (fetchWeatherFromOpenMeteo w cityName) = Returns (Inr weather)
           \<and> length (Weather_Hourly weather) = N
           \<and> (\<forall>i < N. Weather_Hourly weather ! i =
                 \<lparr>Forecast_Time = OM_Time (OM_Hourly r) ! i,
                  Forecast_Temperature = OM_Temperature (OM_Hourly r) ! i,
                  Forecast_WindSpeed = OM_WindSpeed (OM_Hourly r) ! i,
                  Forecast_RelativeHumidity = OM_RelativeHumidity (OM_Hourly r) ! i\<rparr>)"
proof -
  have "fst (fetchWeatherFromOpenMeteo w cityName) =
          Returns (Inr \<lparr>Weather_Latitude = lat, Weather_Longitude = lon,
             Weather_Hourly = map (forecastAt (OM_Hourly r)) [0 ..< length (OM_Time (OM_Hourly r))]\<rparr>)"
    using assms by (intro zip_when_time_is_covered) simp_all
  then show ?thesis
    using assms(4) by (simp add: forecastAt_def)
qed

text \<open>The theorem at the forecast of the repository's test: four arrays of length 2.\<close>

theorem weather_zip_equal_lengths_witness:
  "fst (geocodeCity (exWorld upstreamRatesDown) ''London'' []) = Inr (Nom_Lat london, Nom_Lon london)
   \<and> httpGet (exWorld upstreamRatesDown) (OpenMeteoForecast (Nom_Lat london) (Nom_Lon london))
        = Response 200 ''hourly 2 2 2 2''
   \<and> decodeOpenMeteo (exWorld upstreamRatesDown) ''hourly 2 2 2 2'' = Inr forecast2222
   \<and> length (OM_Time (OM_Hourly forecast2222)) = 2
   \<and> length (OM_Temperature (OM_Hourly forecast2222)) = 2
   \<and> length (OM_WindSpeed (OM_Hourly forecast2222)) = 2
   \<and> length (OM_RelativeHumidity (OM_Hourly forecast2222)) = 2
   \<and> (\<exists>weather. fst (fetchWeatherFromOpenMeteo (exWorld upstreamRatesDown) ''London'') = Returns (Inr weather)
         \<and> length (Weather_Hourly weather) = 2
         \<and> Weather_Hourly weather ! 1 =
             \<lparr>Forecast_Time = ''2024-01-01T01:00'', Forecast_Temperature = 0x4026666666666666,
              Forecast_WindSpeed = 0x4018666666666666, Forecast_RelativeHumidity = 73\<rparr>)"
proof -
  let ?w = "exWorld upstreamRatesDown"
  have h1: "fst (geocodeCity ?w ''London'' []) = Inr (Nom_Lat london, Nom_Lon london)"
    by (simp add: geocodeCity_def example_defs)
  have h2: "httpGet ?w (OpenMeteoForecast (Nom_Lat london) (Nom_Lon london)) = Response 200 ''hourly 2 2 2 2''"
    by (simp add: example_defs)
  have h3: "decodeOpenMeteo ?w ''hourly 2 2 2 2'' = Inr forecast2222"
    by (simp add: example_defs)
  have h4: "length (OM_Time (OM_Hourly forecast2222)) = 2"
    and h5: "length (OM_Temperature (OM_Hourly forecast2222)) = 2"
    and h6: "length (OM_WindSpeed (OM_Hourly forecast2222)) = 2"
    and h7: "length (OM_RelativeHumidity (OM_Hourly forecast2222)) = 2"
    by (simp_all add: forecast2222_def)
  from weather_zip_equal_lengths [OF h1 h2 h3 h4 h5 h6 h7]
  obtain weather where
    w: "fst (fetchWeatherFromOpenMeteo ?w ''London'') = Returns (Inr weather)"
       "length (Weather_Hourly weather) = 2"
       "\<forall>i < 2. Weather_Hourly weather ! i =
           \<lparr>Forecast_Time = OM_Time (OM_Hourly forecast2222) ! i,
            Forecast_Temperature = OM_Temperature (OM_Hourly forecast2222) ! i,
            Forecast_WindSpeed = OM_WindSpeed (OM_Hourly forecast2222) ! i,
            Forecast_RelativeHumidity = OM_RelativeHumidity (OM_Hourly forecast2222) ! i\<rparr>"
    by blast
  from w(3) have "Weather_Hourly weather ! 1 =
       \<lparr>Forecast_Time = ''2024-01-01T01:00'', Forecast_Temperature = 0x4026666666666666,
        Forecast_WindSpeed = 0x4018666666666666, Forecast_RelativeHumidity = 73\<rparr>"
    by (simp add: forecast2222_def)
  with w(1,2) h1 h2 h3 h4 h5 h6 h7 show ?thesis by blast
qed

text \<open>
  Claim C9. The zip iterates over the indices of the time array only. For every
  upstream response (geocoding gave a coordinate, status 200, the body decoded) in
  which each of the temperature, wind-speed and humidity arrays is at least as long
  as the time array, no index is out of range, the hourly sequence has exactly
  \<open>length(time)\<close> entries, entry \<open>i\<close> holds the \<open>i\<close>-th element of each array, and the
  surplus entries of the other three arrays are dropped. Equal lengths are not needed
  for safety, only that the time array is not longer than any of the other three:
  when it is longer than one of them, an index is out of range and the adapter panics.
\<close>

theorem weather_zip_follows_time_array:
  assumes "fst (geocodeCity w cityName []) = Inr (lat, lon)"
      and "httpGet w (OpenMeteoForecast lat lon) = Response 200 body"
      and "decodeOpenMeteo w body = Inr r"
  shows "(length (OM_Time (OM_Hourly r)) \<le> length (OM_Temperature (OM_Hourly r))
          \<and> length (OM_Time (OM_Hourly r)) \<le> length (OM_WindSpeed (OM_Hourly r))
          \<and> length (OM_Time (OM_Hourly r)) \<le> length (OM_RelativeHumidity (OM_Hourly r))
          \<longrightarrow> (\<exists>weather. fst (fetchWeatherFromOpenMeteo w cityName) = Returns (Inr weather)
                 \<and> length (Weather_Hourly weather) = length (OM_Time (OM_Hourly r))
                 \<and> (\<forall>i < length (OM_Time (OM_Hourly r)). Weather_Hourly weather ! i =
                       \<lparr>Forecast_Time = OM_Time (OM_Hourly r) ! i,
                        Forecast_Temperature = OM_Temperature (OM_Hourly r) ! i,
                        Forecast_WindSpeed = OM_WindSpeed (OM_Hourly r) ! i,
                        Forecast_RelativeHumidity = OM_RelativeHumidity (OM_Hourly r) ! i\<rparr>)))
       \<and> (length (OM_Temperature (OM_Hourly r)) < length (OM_Time (OM_Hourly r))
          \<or> length (OM_WindSpeed (OM_Hourly r)) < length (OM_Time (OM_Hourly r))
          \<or> length (OM_RelativeHumidity (OM_Hourly r)) < length (OM_Time (OM_Hourly r))
          \<longrightarrow> (\<exists>p. fst (fetchWeatherFromOpenMeteo w cityName) = Panics p))"
proof (intro conjI impI)
  assume cover: "length (OM_Time (OM_Hourly r)) \<le> length (OM_Temperature (OM_Hourly r))
          \<and> length (OM_Time (OM_Hourly r)) \<le> length (OM_WindSpeed (OM_Hourly r))
          \<and> length (OM_Time (OM_Hourly r)) \<le> length (OM_RelativeHumidity (OM_Hourly r))"
  have "fst (fetchWeatherFromOpenMeteo w cityName) =
          Returns (Inr \<lparr>Weather_Latitude = lat, Weather_Longitude = lon,
             Weather_Hourly = map (forecastAt (OM_Hourly r)) [0 ..< length (OM_Time (OM_Hourly r))]\<rparr>)"
    using assms cover by (intro zip_when_time_is_covered) simp_all
  then show "\<exists>weather. fst (fetchWeatherFromOpenMeteo w cityName) = Returns (Inr weather)
                 \<and> length (Weather_Hourly weather) = length (OM_Time (OM_Hourly r))
                 \<and> (\<forall>i < length (OM_Time (OM_Hourly r)). Weather_Hourly weather ! i =
                       \<lparr>Forecast_Time = OM_Time (OM_Hourly r) ! i,
                        Forecast_Temperature = OM_Temperature (OM_Hourly r) ! i,
                        Forecast_WindSpeed = OM_WindSpeed (OM_Hourly r) ! i,
                        Forecast_RelativeHumidity = OM_RelativeHumidity (OM_Hourly r) ! i\<rparr>)"
    by (simp add: forecastAt_def)
next
  assume "length (OM_Temperature (OM_Hourly r)) < length (OM_Time (OM_Hourly r))
          \<or> length (OM_WindSpeed (OM_Hourly r)) < length (OM_Time (OM_Hourly r))
          \<or> length (OM_RelativeHumidity (OM_Hourly r)) < length (OM_Time (OM_Hourly r))"
  with assms show "\<exists>p. fst (fetchWeatherFromOpenMeteo w cityName) = Panics p"
    by (rule zip_when_time_is_longer)
qed

text \<open>
  The theorem at two forecasts: a time array of length 1 beside three arrays of
  length 2 gives one entry and no panic; a time array of length 2 beside a
  temperature array of length 1 panics.
\<close>

theorem weather_zip_follows_time_array_witness:
  "(\<exists>weather. fst (fetchWeatherFromOpenMeteo
        (exWorld (upstreamWith ''one group'' ''hourly 1 2 2 2'' ''success'' ''four countries''))
        ''London'') = Returns (Inr weather)
      \<and> Weather_Hourly weather =
           [\<lparr>Forecast_Time = ''2024-01-01T00:00'', Forecast_Temperature = 0x4025000000000000,
             Forecast_WindSpeed = 0x4015333333333333, Forecast_RelativeHumidity = 75\<rparr>])
   \<and> (\<exists>p. fst (fetchWeatherFromOpenMeteo
        (exWorld (upstreamWith ''one group'' ''hourly 2 1 2 2'' ''success'' ''four countries''))
        ''London'') = Panics p)"
proof -
  let ?w1 = "exWorld (upstreamWith ''one group'' ''hourly 1 2 2 2'' ''success'' ''four countries'')"
  let ?w2 = "exWorld (upstreamWith ''one group'' ''hourly 2 1 2 2'' ''success'' ''four countries'')"
  have g1: "fst (geocodeCity ?w1 ''London'' []) = Inr (Nom_Lat london, Nom_Lon london)"
    by (simp add: geocodeCity_def example_defs)
  have r1: "httpGet ?w1 (OpenMeteoForecast (Nom_Lat london) (Nom_Lon london)) = Response 200 ''hourly 1 2 2 2''"
    by (simp add: example_defs)
  have d1: "decodeOpenMeteo ?w1 ''hourly 1 2 2 2'' = Inr forecast1222"
    by (simp add: example_defs)
  have g2: "fst (geocodeCity ?w2 ''London'' []) = Inr (Nom_Lat london, Nom_Lon london)"
    by (simp add: geocodeCity_def example_defs)
  have r2: "httpGet ?w2 (OpenMeteoForecast (Nom_Lat london) (Nom_Lon london)) = Response 200 ''hourly 2 1 2 2''"
    by (simp add: example_defs)
  have d2: "decodeOpenMeteo ?w2 ''hourly 2 1 2 2'' = Inr forecast2122"
    by (simp add: example_defs)
  have cover: "length (OM_Time (OM_Hourly forecast1222)) \<le> length (OM_Temperature (OM_Hourly forecast1222))
          \<and> length (OM_Time (OM_Hourly forecast1222)) \<le> length (OM_WindSpeed (OM_Hourly forecast1222))
          \<and> length (OM_Time (OM_Hourly forecast1222)) \<le> length (OM_RelativeHumidity (OM_Hourly forecast1222))"
    by (simp add: forecast1222_def)
  have short: "length (OM_Temperature (OM_Hourly forecast2122)) < length (OM_Time (OM_Hourly forecast2122))
          \<or> length (OM_WindSpeed (OM_Hourly forecast2122)) < length (OM_Time (OM_Hourly forecast2122))
          \<or> length (OM_RelativeHumidity (OM_Hourly forecast2122)) < length (OM_Time (OM_Hourly forecast2122))"
    by (simp add: forecast2122_def)
  from weather_zip_follows_time_array [OF g1 r1 d1] cover
  obtain weather where
    w: "fst (fetchWeatherFromOpenMeteo ?w1 ''London'') = Returns (Inr weather)"
       "length (Weather_Hourly weather) = length (OM_Time (OM_Hourly forecast1222))"
       "\<forall>i < length (OM_Time (OM_Hourly forecast1222)). Weather_Hourly weather ! i =
           \<lparr>Forecast_Time = OM_Time (OM_Hourly forecast1222) ! i,
            Forecast_Temperature = OM_Temperature (OM_Hourly forecast1222) ! i,
            Forecast_WindSpeed = OM_WindSpeed (OM_Hourly forecast1222) ! i,
            Forecast_RelativeHumidity = OM_RelativeHumidity (OM_Hourly forecast1222) ! i\<rparr>"
    by blast
  from w(2) have len: "length (Weather_Hourly weather) = 1"
    by (simp add: forecast1222_def)
  from w(3) have "Weather_Hourly weather ! 0 =
       \<lparr>Forecast_Time = ''2024-01-01T00:00'', Forecast_Temperature = 0x4025000000000000,
        Forecast_WindSpeed = 0x4015333333333333, Forecast_RelativeHumidity = 75\<rparr>"
    by (simp add: forecast1222_def)
  with len have "Weather_Hourly weather =
       [\<lparr>Forecast_Time = ''2024-01-01T00:00'', Forecast_Temperature = 0x4025000000000000,
         Forecast_WindSpeed = 0x4015333333333333, Forecast_RelativeHumidity = 75\<rparr>]"
    by (cases "Weather_Hourly weather") auto
  with w(1) have first: "\<exists>weather. fst (fetchWeatherFromOpenMeteo ?w1 ''London'') = Returns (Inr weather)
      \<and> Weather_Hourly weather =
           [\<lparr>Forecast_Time = ''2024-01-01T00:00'', Forecast_Temperature = 0x4025000000000000,
             Forecast_WindSpeed = 0x4015333333333333, Forecast_RelativeHumidity = 75\<rparr>]"
    by blast
  from weather_zip_follows_time_array [OF g2 r2 d2] short
  have "\<exists>p. fst (fetchWeatherFromOpenMeteo ?w2 ''London'') = Panics p"
    by blast
  with first show ?thesis by blast
qed

section \<open>Geocoding and the upstream status\<close>

text \<open>
  Claim C2. \<open>geocodeCity\<close> is to fail with a not-found error exactly when the upstream
  has no match, and with an upstream error when the transport fails or the upstream
  answers with a non-success status, and never to return a coordinate then. The code
  never reads \<open>resp.StatusCode\<close>, unlike the four other adapters of the file: when the
  geocoding service answers 500 with a body that decodes to one match, it returns
  that match's coordinate; when it answers 503 with a body that decodes to no match,
  the error is the not-found one. (A transport failure does end in its error.)
\<close>

theorem geocodeCity_ignores_status:
  "fst (geocodeCity (exWorld (upstreamStatus 500 ''[london]'')) ''London'' ''England'')
     = Inr (0x4049C0F27BB2FEC5, 0xBFC05BC01A36E2EB)
   \<and> fst (geocodeCity (exWorld (upstreamStatus 503 ''[]'')) ''London'' ''England'')
     = Inl (Errorf ''location not found: London, England'')
   \<and> fst (fetchRatesFromExchangeAPI (exWorld (upstreamStatus 500 ''success'')) ''USD'')
     = Inl (Errorf ''exchange-rate API error: 500 - success'')"
  by (simp add: geocodeCity_def fetchRatesFromExchangeAPI_def example_defs fmt_d_def Let_def)

text \<open>What does hold of \<open>geocodeCity\<close>, whatever the status: the outcome by case.\<close>

lemma geocodeCity_cases:
  "fst (geocodeCity w cityName country) =
     (case httpGet w (NominatimSearch (if country \<noteq> [] then cityName @ '', '' @ country else cityName)) of
        TransportError e \<Rightarrow> Inl (LibError e)
      | Response code body \<Rightarrow>
          (case decodeNominatim w body of
             Inl e \<Rightarrow> Inl (LibError e)
           | Inr [] \<Rightarrow> Inl (Errorf (''location not found: ''
                          @ (if country \<noteq> [] then cityName @ '', '' @ country else cityName)))
           | Inr (r # _) \<Rightarrow> Inr (Nom_Lat r, Nom_Lon r)))"
  by (simp add: geocodeCity_def Let_def split: http_result.splits sum.splits list.splits)

section \<open>The rates adapter\<close>

text \<open>
  Claim C10. For every rates upstream response with status 200 whose body decodes,
  \<open>fetchRatesFromExchangeAPI\<close> succeeds whatever the body's \<open>result\<close> field is (the field
  is not read), and the returned RatesData has as base currency the \<open>base_code\<close> the
  upstream reports, which need not be the requested \<open>baseCurrency\<close>.
\<close>

theorem rates_success_ignores_result_field:
  assumes "httpGet w (ExchangeRateLatest ''c04b66e4d1f1f147c60834b3'' baseCurrency) = Response 200 body"
      and "decodeExchangeRate w body = Inr r"
  shows "fst (fetchRatesFromExchangeAPI w baseCurrency) =
           Inr \<lparr>Rates_BaseCurrency = ER_BaseCode r,
                Rates_Rates = ER_ConversionRates r,
                Rates_Timestamp = Unix (ER_TimeLastUpdateUnix r) 0\<rparr>
         \<and> (\<forall>res. fst (fetchRatesFromExchangeAPI
                       (w\<lparr>decodeExchangeRate := (decodeExchangeRate w)(body := Inr (r\<lparr>ER_Result := res\<rparr>))\<rparr>)
                       baseCurrency)
                = fst (fetchRatesFromExchangeAPI w baseCurrency))"
  using assms by (simp add: fetchRatesFromExchangeAPI_def)

text \<open>
  The theorem at a 200 response whose \<open>result\<close> is \<open>error\<close> and whose \<open>base_code\<close> is
  empty, for the requested base \<open>USD\<close>.
\<close>

theorem rates_success_ignores_result_field_witness:
  "httpGet (exWorld (upstreamWith ''one group'' ''hourly 2 2 2 2'' ''error'' ''four countries''))
      (ExchangeRateLatest ''c04b66e4d1f1f147c60834b3'' ''USD'') = Response 200 ''error''
   \<and> decodeExchangeRate (exWorld (upstreamWith ''one group'' ''hourly 2 2 2 2'' ''error'' ''four countries''))
        ''error'' = Inr ratesError
   \<and> ER_Result ratesError \<noteq> ''success''
   \<and> ER_BaseCode ratesError \<noteq> ''USD''
   \<and> fst (fetchRatesFromExchangeAPI
        (exWorld (upstreamWith ''one group'' ''hourly 2 2 2 2'' ''error'' ''four countries'')) ''USD'')
      = Inr \<lparr>Rates_BaseCurrency = [], Rates_Rates = Map.empty, Rates_Timestamp = Unix 0 0\<rparr>"
proof -
  let ?w = "exWorld (upstreamWith ''one group'' ''hourly 2 2 2 2'' ''error'' ''four countries'')"
  have h1: "httpGet ?w (ExchangeRateLatest ''c04b66e4d1f1f147c60834b3'' ''USD'') = Response 200 ''error''"
    by (simp add: example_defs)
  have h2: "decodeExchangeRate ?w ''error'' = Inr ratesError"
    by (simp add: example_defs)
  have h3: "ER_Result ratesError \<noteq> ''success''" "ER_BaseCode ratesError \<noteq> ''USD''"
    by (simp_all add: ratesError_def)
  from rates_success_ignores_result_field [OF h1 h2]
  have "fst (fetchRatesFromExchangeAPI ?w ''USD'') =
          Inr \<lparr>Rates_BaseCurrency = ER_BaseCode ratesError,
               Rates_Rates = ER_ConversionRates ratesError,
               Rates_Timestamp = Unix (ER_TimeLastUpdateUnix ratesError) 0\<rparr>"
    by blast
  then have "fst (fetchRatesFromExchangeAPI ?w ''USD'')
      = Inr \<lparr>Rates_BaseCurrency = [], Rates_Rates = Map.empty, Rates_Timestamp = Unix 0 0\<rparr>"
    by (simp add: ratesError_def)
  with h1 h2 h3 show ?thesis by blast
qed

section \<open>The handlers\<close>

text \<open>
  Claim C7. For every request to \<open>GetLandmarks\<close> or \<open>GetWeather\<close> whose query string has
  no \<open>city\<close> parameter, or an empty one, the handler responds with status 400 and the
  body \<open>{"error": "city parameter is required"}\<close>, and issues no upstream request.
\<close>

theorem missing_city_is_bad_request:
  assumes "QueryValues c ''city'' = [] \<or> (\<exists>more. QueryValues c ''city'' = [] # more)"
  shows "GetLandmarks w c =
           (Returns \<lparr>status = 400, payload = H [''error'' \<mapsto> JString ''city parameter is required'']\<rparr>, [])
         \<and> GetWeather w c =
           (Returns \<lparr>status = 400, payload = H [''error'' \<mapsto> JString ''city parameter is required'']\<rparr>, [])"
proof -
  from assms have "Query c ''city'' = []"
    by (auto simp: Query_def)
  then show ?thesis
    by (simp add: GetLandmarks_def GetWeather_def JSON_def StatusBadRequest_def)
qed

text \<open>
  The theorem at the request of the repository's test, \<open>/api/v1/landmarks?country=UK\<close>,
  in a world whose upstreams would all answer.
\<close>

theorem missing_city_is_bad_request_witness:
  "(QueryValues \<lparr>Params = [], QueryValues = (\<lambda>k. if k = ''country'' then [''UK''] else [])\<rparr> ''city'' = []
     \<or> (\<exists>more. QueryValues \<lparr>Params = [], QueryValues = (\<lambda>k. if k = ''country'' then [''UK''] else [])\<rparr>
            ''city'' = [] # more))
   \<and> GetLandmarks (exWorld upstreamRatesDown)
        \<lparr>Params = [], QueryValues = (\<lambda>k. if k = ''country'' then [''UK''] else [])\<rparr> =
        (Returns \<lparr>status = 400, payload = H [''error'' \<mapsto> JString ''city parameter is required'']\<rparr>, [])
   \<and> GetWeather (exWorld upstreamRatesDown)
        \<lparr>Params = [], QueryValues = (\<lambda>k. if k = ''country'' then [''UK''] else [])\<rparr> =
        (Returns \<lparr>status = 400, payload = H [''error'' \<mapsto> JString ''city parameter is required'']\<rparr>, [])"
proof -
  let ?c = "\<lparr>Params = [], QueryValues = (\<lambda>k. if k = ''country'' then [''UK''] else [])\<rparr>"
  have h: "QueryValues ?c ''city'' = [] \<or> (\<exists>more. QueryValues ?c ''city'' = [] # more)"
    by simp
  from h missing_city_is_bad_request [OF h, of "exWorld upstreamRatesDown"] show ?thesis
    by blast
qed

text \<open>
  The response of the city bundle for any three results: status 200, and for each of
  the three either the field or its \<open>_error\<close> sibling, never both.
\<close>

lemma cityResponse_fields:
  "\<exists>fields. cityResponse cityName country landmarksRes weatherRes ratesRes
             = \<lparr>status = 200, payload = H fields\<rparr>
     \<and> fields ''city'' = Some (JString cityName)
     \<and> fields ''country'' = Some (JString country)
     \<and> (case landmarksRes of
           Inr landmarks \<Rightarrow> fields ''landmarks'' = Some (JLandmarks landmarks)
                              \<and> fields ''landmarks_error'' = None
         | Inl err \<Rightarrow> fields ''landmarks_error'' = Some (JString (Error err))
                              \<and> fields ''landmarks'' = None)
     \<and> (case weatherRes of
           Inr weather \<Rightarrow> fields ''weather'' = Some (JWeather weather)
                              \<and> fields ''weather_error'' = None
         | Inl err \<Rightarrow> fields ''weather_error'' = Some (JString (Error err))
                              \<and> fields ''weather'' = None)
     \<and> (case ratesRes of
           Inr rates \<Rightarrow> fields ''rates'' = Some (JRates rates)
                              \<and> fields ''rates_error'' = None
         | Inl err \<Rightarrow> fields ''rates_error'' = Some (JString (Error err))
                              \<and> fields ''rates'' = None)"
  by (cases landmarksRes; cases weatherRes; cases ratesRes)
     (simp_all add: cityResponse_def JSON_def StatusOK_def)

text \<open>
  What \<open>GetCityData\<close> does whenever the weather fetch returns, with a payload or with
  an error (the two other fetches always return): the response has status 200, and
  for each of the three fetches the body has the field (\<open>landmarks\<close>, \<open>weather\<close>, \<open>rates\<close>)
  with the payload when that fetch succeeded, and otherwise the sibling field
  (\<open>landmarks_error\<close>, \<open>weather_error\<close>, \<open>rates_error\<close>) with that fetch's error message;
  never both and never neither.
\<close>

lemma city_bundle_when_fetches_return:
  assumes "\<forall>p. fst (fetchWeatherFromOpenMeteo w (Param c ''name'')) \<noteq> Panics p"
  shows "\<exists>fields. fst (GetCityData w c) = Returns \<lparr>status = 200, payload = H fields\<rparr>
     \<and> (case fst (fetchLandmarksFromFoursquare w (Param c ''name'') (Param c ''country'')) of
           Inr landmarks \<Rightarrow> fields ''landmarks'' = Some (JLandmarks landmarks)
                              \<and> fields ''landmarks_error'' = None
         | Inl err \<Rightarrow> fields ''landmarks_error'' = Some (JString (Error err))
                              \<and> fields ''landmarks'' = None)
     \<and> (case fst (fetchWeatherFromOpenMeteo w (Param c ''name'')) of
           Returns (Inr weather) \<Rightarrow> fields ''weather'' = Some (JWeather weather)
                              \<and> fields ''weather_error'' = None
         | Returns (Inl err) \<Rightarrow> fields ''weather_error'' = Some (JString (Error err))
                              \<and> fields ''weather'' = None
         | Panics p \<Rightarrow> False)
     \<and> (case fst (fetchRatesFromExchangeAPI w ''USD'') of
           Inr rates \<Rightarrow> fields ''rates'' = Some (JRates rates)
                              \<and> fields ''rates_error'' = None
         | Inl err \<Rightarrow> fields ''rates_error'' = Some (JString (Error err))
                              \<and> fields ''rates'' = None)"
proof -
  let ?name = "Param c ''name''" and ?country = "Param c ''country''"
  from assms obtain weatherRes where
    ret: "fst (fetchWeatherFromOpenMeteo w ?name) = Returns weatherRes"
    by (cases "fst (fetchWeatherFromOpenMeteo w ?name)") auto
  have run: "fst (GetCityData w c) =
      Returns (cityResponse ?name ?country (fst (fetchLandmarksFromFoursquare w ?name ?country))
                 weatherRes (fst (fetchRatesFromExchangeAPI w ''USD'')))"
    using ret by (simp add: GetCityData_def Let_def)
  from cityResponse_fields [of ?name ?country
         "fst (fetchLandmarksFromFoursquare w ?name ?country)" weatherRes
         "fst (fetchRatesFromExchangeAPI w ''USD'')"]
  obtain fields where f:
    "cityResponse ?name ?country (fst (fetchLandmarksFromFoursquare w ?name ?country))
        weatherRes (fst (fetchRatesFromExchangeAPI w ''USD''))
       = \<lparr>status = 200, payload = H fields\<rparr>"
    "case fst (fetchLandmarksFromFoursquare w ?name ?country) of
           Inr landmarks \<Rightarrow> fields ''landmarks'' = Some (JLandmarks landmarks)
                              \<and> fields ''landmarks_error'' = None
         | Inl err \<Rightarrow> fields ''landmarks_error'' = Some (JString (Error err))
                              \<and> fields ''landmarks'' = None"
    "case weatherRes of
           Inr weather \<Rightarrow> fields ''weather'' = Some (JWeather weather)
                              \<and> fields ''weather_error'' = None
         | Inl err \<Rightarrow> fields ''weather_error'' = Some (JString (Error err))
                              \<and> fields ''weather'' = None"
    "case fst (fetchRatesFromExchangeAPI w ''USD'') of
           Inr rates \<Rightarrow> fields ''rates'' = Some (JRates rates)
                              \<and> fields ''rates_error'' = None
         | Inl err \<Rightarrow> fields ''rates_error'' = Some (JString (Error err))
                              \<and> fields ''rates'' = None"
    by blast
  have "case fst (fetchWeatherFromOpenMeteo w ?name) of
           Returns (Inr weather) \<Rightarrow> fields ''weather'' = Some (JWeather weather)
                              \<and> fields ''weather_error'' = None
         | Returns (Inl err) \<Rightarrow> fields ''weather_error'' = Some (JString (Error err))
                              \<and> fields ''weather'' = None
         | Panics p \<Rightarrow> False"
    using f(3) ret by (simp split: sum.splits)
  with run f(1,2,4) show ?thesis by auto
qed

text \<open>
  The bundle for London, England when the rates service answers 500 and the two other
  fetches succeed: status 200, \<open>landmarks\<close> and \<open>weather\<close> populated, \<open>rates_error\<close>
  populated.
\<close>

lemma city_bundle_rates_down:
  "(\<forall>p. fst (fetchWeatherFromOpenMeteo (exWorld upstreamRatesDown) (Param londonRequest ''name'')) \<noteq> Panics p)
   \<and> (\<exists>fields. fst (GetCityData (exWorld upstreamRatesDown) londonRequest)
                   = Returns \<lparr>status = 200, payload = H fields\<rparr>
         \<and> fields ''landmarks'' \<noteq> None \<and> fields ''landmarks_error'' = None
         \<and> fields ''weather'' \<noteq> None \<and> fields ''weather_error'' = None
         \<and> fields ''rates'' = None
         \<and> fields ''rates_error'' = Some (JString ''exchange-rate API error: 500 - quota-reached''))"
proof -
  let ?w = "exWorld upstreamRatesDown"
  have name: "Param londonRequest ''name'' = ''London''"
    and country: "Param londonRequest ''country'' = ''England''"
    by (simp_all add: Param_def londonRequest_def)
  have wx: "fst (fetchWeatherFromOpenMeteo ?w ''London'') =
      Returns (Inr \<lparr>Weather_Latitude = Nom_Lat london, Weather_Longitude = Nom_Lon london,
         Weather_Hourly = map (forecastAt (OM_Hourly forecast2222))
                            [0 ..< length (OM_Time (OM_Hourly forecast2222))]\<rparr>)"
    by (rule zip_when_time_is_covered [where body = "''hourly 2 2 2 2''"])
       (simp_all add: geocodeCity_def example_defs forecast2222_def)
  have h: "\<forall>p. fst (fetchWeatherFromOpenMeteo ?w (Param londonRequest ''name'')) \<noteq> Panics p"
    by (simp add: name wx)
  have lm: "fst (fetchLandmarksFromFoursquare ?w ''London'' ''England'') = Inr (convertLandmarks oneGroup)"
    by (simp add: fetchLandmarksFromFoursquare_def geocodeCity_def example_defs Let_def
          parseV2APIKey_split splitFirstPlus_def)
  have rt: "fst (fetchRatesFromExchangeAPI ?w ''USD'')
              = Inl (Errorf ''exchange-rate API error: 500 - quota-reached'')"
    by (simp add: fetchRatesFromExchangeAPI_def example_defs fmt_d_def Let_def)
  from city_bundle_when_fetches_return [OF h]
  obtain fields where
    "fst (GetCityData ?w londonRequest) = Returns \<lparr>status = 200, payload = H fields\<rparr>"
    "fields ''landmarks'' \<noteq> None \<and> fields ''landmarks_error'' = None"
    "fields ''weather'' \<noteq> None \<and> fields ''weather_error'' = None"
    "fields ''rates'' = None
       \<and> fields ''rates_error'' = Some (JString ''exchange-rate API error: 500 - quota-reached'')"
    by (auto simp: name country wx lm rt)
  with h show ?thesis by blast
qed

text \<open>
  Claim C1. For every city-bundle request handled by \<open>GetCityData\<close> the response is to
  have status 200 whichever of the three fetches fail, with, for each of them, either
  the field and its payload or the \<open>_error\<close> sibling and the error message. That is
  what the handler does whenever the three fetches return (the lemma above). It does
  not hold for every request: when the forecast answers 200 with a time array of
  length 2 and a temperature array of length 1, while geocoding, places and rates all
  succeed, \<open>fetchWeatherFromOpenMeteo\<close> indexes the temperature array out of range. The
  panic is raised in the goroutine started by \<open>GetCityData\<close>, which has no recover, so
  it ends the program: no response is written, neither status 200 nor a
  \<open>weather_error\<close> field.
\<close>

theorem city_bundle_no_response_when_weather_panics:
  "fst (fetchLandmarksFromFoursquare
          (exWorld (upstreamWith ''one group'' ''hourly 2 1 2 2'' ''success'' ''four countries''))
          ''London'' ''England'') = Inr (convertLandmarks oneGroup)
   \<and> fst (fetchWeatherFromOpenMeteo
          (exWorld (upstreamWith ''one group'' ''hourly 2 1 2 2'' ''success'' ''four countries''))
          ''London'') = Panics (IndexOutOfRange 1 1)
   \<and> fst (GetCityData
          (exWorld (upstreamWith ''one group'' ''hourly 2 1 2 2'' ''success'' ''four countries''))
          londonRequest) = Panics (IndexOutOfRange 1 1)"
proof -
  let ?w = "exWorld (upstreamWith ''one group'' ''hourly 2 1 2 2'' ''success'' ''four countries'')"
  have lm: "fst (fetchLandmarksFromFoursquare ?w ''London'' ''England'') = Inr (convertLandmarks oneGroup)"
    by (simp add: fetchLandmarksFromFoursquare_def geocodeCity_def example_defs Let_def
          parseV2APIKey_split splitFirstPlus_def)
  have geo: "fst (geocodeCity ?w ''London'' []) = Inr (Nom_Lat london, Nom_Lon london)"
    by (simp add: geocodeCity_def example_defs)
  have get: "httpGet ?w (OpenMeteoForecast (Nom_Lat london) (Nom_Lon london)) = Response 200 ''hourly 2 1 2 2''"
    by (simp add: example_defs)
  have dec: "decodeOpenMeteo ?w ''hourly 2 1 2 2'' = Inr forecast2122"
    by (simp add: example_defs)
  have loop: "hourlyLoop (OM_Hourly forecast2122) [0 ..< length (OM_Time (OM_Hourly forecast2122))] []
                = Panics (IndexOutOfRange 1 1)"
    by (simp add: forecast2122_def upt_rec)
  have wx: "fst (fetchWeatherFromOpenMeteo ?w ''London'') = Panics (IndexOutOfRange 1 1)"
    by (simp add: fetchWeather_decoded [OF geo get dec] loop)
  then have "fst (GetCityData ?w londonRequest) = Panics (IndexOutOfRange 1 1)"
    by (simp add: GetCityData_def Let_def Param_def londonRequest_def)
  with lm wx show ?thesis by blast
qed

section \<open>The landmark adapter\<close>

lemma appendLandmarks_map: "appendLandmarks landmarks items = landmarks @ map toLandmark items"
  by (induction items arbitrary: landmarks) simp_all

lemma fetchLandmarks_decoded:
  assumes geo: "fst (geocodeCity w cityName country) = Inr (lat, lon)"
      and key: "Getenv w ''FOURSQUARE_API_KEY'' = apiKey" "apiKey \<noteq> []"
      and get: "httpGet w (FoursquareExplore lat lon (fst (parseV2APIKey apiKey))
                  (snd (parseV2APIKey apiKey))) = Response 200 body"
      and dec: "decodeFoursquare w body = Inr fsResponse"
  shows "fst (fetchLandmarksFromFoursquare w cityName country) = Inr (convertLandmarks fsResponse)"
proof -
  obtain t where "geocodeCity w cityName country = (Inr (lat, lon), t)"
    using geo by (cases "geocodeCity w cityName country") auto
  then show ?thesis
    using key get dec by (simp add: fetchLandmarksFromFoursquare_def Let_def)
qed

text \<open>
  Claim C6, as the code has it. On a successful places-search response (geocoding
  gave a coordinate, the credential is set, status 200, the body decoded),
  \<open>fetchLandmarksFromFoursquare\<close> returns no error and one Landmark for each result item
  of the response's first result group, in order, with name, address, latitude,
  longitude and rating taken from the item's venue; the items of any further group
  are not used; a response with zero result groups gives the empty sequence.
\<close>

theorem landmarks_from_first_group:
  assumes "fst (geocodeCity w cityName country) = Inr (lat, lon)"
      and "Getenv w ''FOURSQUARE_API_KEY'' = apiKey" and "apiKey \<noteq> []"
      and "httpGet w (FoursquareExplore lat lon (fst (parseV2APIKey apiKey))
                  (snd (parseV2APIKey apiKey))) = Response 200 body"
      and "decodeFoursquare w body = Inr fsResponse"
  shows "fst (fetchLandmarksFromFoursquare w cityName country) =
           Inr (case Resp_Groups (FS_Response fsResponse) of
                  [] \<Rightarrow> []
                | group0 # further \<Rightarrow>
                    map (\<lambda>item. \<lparr>Landmark_Name = Venue_Name (Item_Venue item),
                                  Landmark_Address = Loc_Address (Venue_Location (Item_Venue item)),
                                  Landmark_Latitude = Loc_Lat (Venue_Location (Item_Venue item)),
                                  Landmark_Longitude = Loc_Lng (Venue_Location (Item_Venue item)),
                                  Landmark_Rating = Venue_Rating (Item_Venue item)\<rparr>)
                        (Group_Items group0))"
proof -
  have "toLandmark = (\<lambda>item. \<lparr>Landmark_Name = Venue_Name (Item_Venue item),
                                  Landmark_Address = Loc_Address (Venue_Location (Item_Venue item)),
                                  Landmark_Latitude = Loc_Lat (Venue_Location (Item_Venue item)),
                                  Landmark_Longitude = Loc_Lng (Venue_Location (Item_Venue item)),
                                  Landmark_Rating = Venue_Rating (Item_Venue item)\<rparr>)"
    by (rule ext) (simp add: toLandmark_def Let_def)
  then show ?thesis
    using fetchLandmarks_decoded [OF assms]
    by (simp add: convertLandmarks_def appendLandmarks_map split: list.splits)
qed

text \<open>
  The theorem at the London world, whose places response has one group of two items,
  and at a response with no group.
\<close>

theorem landmarks_from_first_group_witness:
  "fst (geocodeCity (exWorld upstreamRatesDown) ''London'' ''England'') = Inr (Nom_Lat london, Nom_Lon london)
   \<and> Getenv (exWorld upstreamRatesDown) ''FOURSQUARE_API_KEY'' = ''CLIENT_ID+CLIENT_SECRET''
   \<and> ''CLIENT_ID+CLIENT_SECRET'' \<noteq> []
   \<and> httpGet (exWorld upstreamRatesDown)
        (FoursquareExplore (Nom_Lat london) (Nom_Lon london)
           (fst (parseV2APIKey ''CLIENT_ID+CLIENT_SECRET''))
           (snd (parseV2APIKey ''CLIENT_ID+CLIENT_SECRET''))) = Response 200 ''one group''
   \<and> decodeFoursquare (exWorld upstreamRatesDown) ''one group'' = Inr oneGroup
   \<and> fst (fetchLandmarksFromFoursquare (exWorld upstreamRatesDown) ''London'' ''England'') =
        Inr [\<lparr>Landmark_Name = ''Big Ben'', Landmark_Address = ''Westminster'',
              Landmark_Latitude = 0x4049C016F0068DB9, Landmark_Longitude = 0xBFBFE5C91D14E3BD,
              Landmark_Rating = 0x4023000000000000\<rparr>,
             \<lparr>Landmark_Name = ''Tower Bridge'', Landmark_Address = ''Tower Bridge Rd'',
              Landmark_Latitude = 0x4049C0B439581062, Landmark_Longitude = 0xBFB34D6A161E4F76,
              Landmark_Rating = 0x4023000000000000\<rparr>]
   \<and> fst (fetchLandmarksFromFoursquare
        (exWorld (upstreamWith ''no group'' ''hourly 2 2 2 2'' ''success'' ''four countries''))
        ''London'' ''England'') = Inr []"
proof -
  let ?w = "exWorld upstreamRatesDown"
  let ?v = "exWorld (upstreamWith ''no group'' ''hourly 2 2 2 2'' ''success'' ''four countries'')"
  have g: "fst (geocodeCity ?w ''London'' ''England'') = Inr (Nom_Lat london, Nom_Lon london)"
    by (simp add: geocodeCity_def example_defs)
  have k: "Getenv ?w ''FOURSQUARE_API_KEY'' = ''CLIENT_ID+CLIENT_SECRET''"
    by (simp add: example_defs)
  have n: "''CLIENT_ID+CLIENT_SECRET'' \<noteq> []" by simp
  have r: "httpGet ?w (FoursquareExplore (Nom_Lat london) (Nom_Lon london)
           (fst (parseV2APIKey ''CLIENT_ID+CLIENT_SECRET''))
           (snd (parseV2APIKey ''CLIENT_ID+CLIENT_SECRET''))) = Response 200 ''one group''"
    by (simp add: example_defs)
  have d: "decodeFoursquare ?w ''one group'' = Inr oneGroup"
    by (simp add: example_defs)
  have g': "fst (geocodeCity ?v ''London'' ''England'') = Inr (Nom_Lat london, Nom_Lon london)"
    by (simp add: geocodeCity_def example_defs)
  have k': "Getenv ?v ''FOURSQUARE_API_KEY'' = ''CLIENT_ID+CLIENT_SECRET''"
    by (simp add: example_defs)
  have r': "httpGet ?v (FoursquareExplore (Nom_Lat london) (Nom_Lon london)
           (fst (parseV2APIKey ''CLIENT_ID+CLIENT_SECRET''))
           (snd (parseV2APIKey ''CLIENT_ID+CLIENT_SECRET''))) = Response 200 ''no group''"
    by (simp add: example_defs)
  have d': "decodeFoursquare ?v ''no group'' = Inr \<lparr>FS_Response = \<lparr>Resp_Groups = []\<rparr>\<rparr>"
    by (simp add: example_defs)
  have one: "fst (fetchLandmarksFromFoursquare ?w ''London'' ''England'') =
        Inr [\<lparr>Landmark_Name = ''Big Ben'', Landmark_Address = ''Westminster'',
              Landmark_Latitude = 0x4049C016F0068DB9, Landmark_Longitude = 0xBFBFE5C91D14E3BD,
              Landmark_Rating = 0x4023000000000000\<rparr>,
             \<lparr>Landmark_Name = ''Tower Bridge'', Landmark_Address = ''Tower Bridge Rd'',
              Landmark_Latitude = 0x4049C0B439581062, Landmark_Longitude = 0xBFB34D6A161E4F76,
              Landmark_Rating = 0x4023000000000000\<rparr>]"
    using landmarks_from_first_group [OF g k n r d]
    by (simp add: oneGroup_def bigBen_def towerBridge_def)
  have none: "fst (fetchLandmarksFromFoursquare ?v ''London'' ''England'') = Inr []"
    using landmarks_from_first_group [OF g' k' n r' d'] by simp
  from g k n r d one none show ?thesis by blast
qed

text \<open>
  Claim C6 as stated says that each result item of the response becomes a Landmark.
  It fails on a response with two result groups, Big Ben in the first and Tower
  Bridge in the second: the only Landmark returned is Big Ben.
\<close>

theorem landmarks_second_group_dropped:
  "decodeFoursquare (exWorld (upstreamWith ''two groups'' ''hourly 2 2 2 2'' ''success'' ''four countries''))
      ''two groups''
     = Inr \<lparr>FS_Response = \<lparr>Resp_Groups = [\<lparr>Group_Items = [bigBen]\<rparr>, \<lparr>Group_Items = [towerBridge]\<rparr>]\<rparr>\<rparr>
   \<and> fst (fetchLandmarksFromFoursquare
        (exWorld (upstreamWith ''two groups'' ''hourly 2 2 2 2'' ''success'' ''four countries''))
        ''London'' ''England'') =
        Inr [\<lparr>Landmark_Name = ''Big Ben'', Landmark_Address = ''Westminster'',
              Landmark_Latitude = 0x4049C016F0068DB9, Landmark_Longitude = 0xBFBFE5C91D14E3BD,
              Landmark_Rating = 0x4023000000000000\<rparr>]"
  by (simp add: fetchLandmarksFromFoursquare_def geocodeCity_def example_defs Let_def
        parseV2APIKey_split splitFirstPlus_def convertLandmarks_def toLandmark_def
        twoGroups_def bigBen_def)

section \<open>The city directory\<close>

lemma citiesLoop_append: "citiesLoop cities n ks = cities @ citiesLoop [] n ks"
proof (induction ks arbitrary: cities n)
  case Nil
  show ?case by simp
next
  case (Cons k ks)
  show ?case
  proof (cases "length (RC_Capital k) = 0 \<or> RC_Currencies k = None")
    case True
    then show ?thesis using Cons.IH [of cities n] by simp
  next
    case False
    let ?city = "\<lparr>City_ID = n, City_Name = RC_Capital k ! 0, City_ThreeLetterCode = RC_CCA3 k,
                   City_Currency = firstCurrency (RC_Currencies k),
                   City_Country = CN_Common (RC_Name k)\<rparr>"
    from False obtain kvs where keep: "RC_Capital k \<noteq> []" "RC_Currencies k = Some kvs"
      by auto
    have "citiesLoop cities n (k # ks) = citiesLoop (cities @ [?city]) (n + 1) ks"
      using keep by simp
    also have "\<dots> = (cities @ [?city]) @ citiesLoop [] (n + 1) ks"
      by (rule Cons.IH)
    finally have "citiesLoop cities n (k # ks) = (cities @ [?city]) @ citiesLoop [] (n + 1) ks" .
    moreover have "citiesLoop [] n (k # ks) = citiesLoop ([] @ [?city]) (n + 1) ks"
      using keep by simp
    moreover have "citiesLoop ([] @ [?city]) (n + 1) ks = ([] @ [?city]) @ citiesLoop [] (n + 1) ks"
      by (rule Cons.IH)
    ultimately show ?thesis by simp
  qed
qed

lemma citiesLoop_Cons:
  "citiesLoop [] n (k # ks) =
     (if RC_Capital k \<noteq> [] \<and> RC_Currencies k \<noteq> None
      then \<lparr>City_ID = n, City_Name = RC_Capital k ! 0, City_ThreeLetterCode = RC_CCA3 k,
            City_Currency = firstCurrency (RC_Currencies k),
            City_Country = CN_Common (RC_Name k)\<rparr> # citiesLoop [] (n + 1) ks
      else citiesLoop [] n ks)"
proof (cases "RC_Capital k \<noteq> [] \<and> RC_Currencies k \<noteq> None")
  case True
  let ?city = "\<lparr>City_ID = n, City_Name = RC_Capital k ! 0, City_ThreeLetterCode = RC_CCA3 k,
                 City_Currency = firstCurrency (RC_Currencies k),
                 City_Country = CN_Common (RC_Name k)\<rparr>"
  from True obtain kvs where keep: "RC_Capital k \<noteq> []" "RC_Currencies k = Some kvs"
    by auto
  then have "citiesLoop [] n (k # ks) = citiesLoop [?city] (n + 1) ks"
    by simp
  also have "\<dots> = [?city] @ citiesLoop [] (n + 1) ks"
    by (rule citiesLoop_append)
  finally have "citiesLoop [] n (k # ks) = ?city # citiesLoop [] (n + 1) ks"
    by simp
  with keep show ?thesis by (simp del: citiesLoop.simps(2))
next
  case False
  then show ?thesis by auto
qed

lemma citiesLoop_length:
  "length (citiesLoop [] n ks) =
     length (filter (\<lambda>k. RC_Capital k \<noteq> [] \<and> RC_Currencies k \<noteq> None) ks)"
  by (induction ks arbitrary: n)
     (simp_all add: citiesLoop_Cons del: citiesLoop.simps(2) not_None_eq)

lemma citiesLoop_nth:
  assumes "i < length (filter (\<lambda>k. RC_Capital k \<noteq> [] \<and> RC_Currencies k \<noteq> None) ks)"
  shows "citiesLoop [] n ks ! i =
     (let k = filter (\<lambda>k. RC_Capital k \<noteq> [] \<and> RC_Currencies k \<noteq> None) ks ! i
      in \<lparr>City_ID = n + int i, City_Name = RC_Capital k ! 0, City_ThreeLetterCode = RC_CCA3 k,
          City_Currency = firstCurrency (RC_Currencies k),
          City_Country = CN_Common (RC_Name k)\<rparr>)"
  using assms
proof (induction ks arbitrary: n i)
  case Nil
  then show ?case by simp
next
  case (Cons k ks)
  let ?P = "\<lambda>k. RC_Capital k \<noteq> [] \<and> RC_Currencies k \<noteq> None"
  show ?case
  proof (cases "?P k")
    case False
    then have "citiesLoop [] n (k # ks) = citiesLoop [] n ks" and "filter ?P (k # ks) = filter ?P ks"
      by (auto simp add: citiesLoop_Cons simp del: citiesLoop.simps(2) not_None_eq)
    with Cons.IH [of i n] Cons.prems show ?thesis
      by (simp del: citiesLoop.simps(2) not_None_eq)
  next
    case True
    let ?city = "\<lparr>City_ID = n, City_Name = RC_Capital k ! 0, City_ThreeLetterCode = RC_CCA3 k,
                   City_Currency = firstCurrency (RC_Currencies k),
                   City_Country = CN_Common (RC_Name k)\<rparr>"
    from True have unfold: "citiesLoop [] n (k # ks) = ?city # citiesLoop [] (n + 1) ks"
      and kept: "filter ?P (k # ks) = k # filter ?P ks"
      by (auto simp add: citiesLoop_Cons simp del: citiesLoop.simps(2) not_None_eq)
    show ?thesis
    proof (cases i)
      case 0
      then show ?thesis
        unfolding unfold kept by (simp add: Let_def)
    next
      case (Suc j)
      with Cons.prems kept have "j < length (filter ?P ks)"
        by (simp del: not_None_eq)
      from Cons.IH [OF this, of "n + 1"] Suc show ?thesis
        unfolding unfold kept by (simp add: Let_def del: not_None_eq)
    qed
  qed
qed

lemma firstCurrency_declared:
  assumes "RC_Currencies k = Some kvs" and "kvs \<noteq> []"
  shows "firstCurrency (RC_Currencies k) \<in> fst ` set kvs"
proof -
  from assms(2) obtain code info rest where "kvs = (code, info) # rest"
    by (cases kvs) auto
  with assms(1) show ?thesis by (simp add: firstCurrency_def)
qed

text \<open>
  Claim C3, as the code has it. For every upstream country directory (status 200, the
  body decoded) in which no country has a currency object that is present but empty,
  the list of \<open>fetchCitiesFromRestCountries\<close> has no entry for a country with an empty
  capital list or with no currency entries and exactly one entry for each country
  having both: the entries follow the directory's order, are numbered from 1, and
  entry \<open>i\<close> has the first capital, the code and the common name of the \<open>i\<close>-th such
  country, and as currency one of that country's declared currency codes. Every
  emitted City has a non-empty name and a non-empty currency when the capital names
  and the currency codes of the directory are non-empty strings.
\<close>

theorem cities_one_entry_per_listed_country:
  assumes "httpGet w RestCountriesAll = Response 200 body"
      and "decodeRestCountries w body = Inr countries"
      and "\<forall>k \<in> set countries. RC_Currencies k \<noteq> Some []"
  shows "\<exists>cities. fst (fetchCitiesFromRestCountries w) = Inr cities
     \<and> length cities = length (filter hasCapitalAndCurrency countries)
     \<and> (\<forall>i < length cities.
          City_ID (cities ! i) = int i + 1
        \<and> City_Name (cities ! i) = RC_Capital (filter hasCapitalAndCurrency countries ! i) ! 0
        \<and> City_ThreeLetterCode (cities ! i) = RC_CCA3 (filter hasCapitalAndCurrency countries ! i)
        \<and> City_Country (cities ! i) = CN_Common (RC_Name (filter hasCapitalAndCurrency countries ! i))
        \<and> City_Currency (cities ! i) \<in>
            (case RC_Currencies (filter hasCapitalAndCurrency countries ! i) of
               None \<Rightarrow> {} | Some kvs \<Rightarrow> fst ` set kvs))
     \<and> ((\<forall>k \<in> set countries. [] \<notin> set (RC_Capital k)
            \<and> (\<forall>kvs. RC_Currencies k = Some kvs \<longrightarrow> [] \<notin> fst ` set kvs))
          \<longrightarrow> (\<forall>city \<in> set cities. City_Name city \<noteq> [] \<and> City_Currency city \<noteq> []))"
proof -
  let ?kept = "filter hasCapitalAndCurrency countries"
  let ?cities = "citiesLoop [] 1 countries"
  have run: "fst (fetchCitiesFromRestCountries w) = Inr ?cities"
    using assms(1,2) by (simp add: fetchCitiesFromRestCountries_def)
  have same: "filter (\<lambda>k. RC_Capital k \<noteq> [] \<and> RC_Currencies k \<noteq> None) countries = ?kept"
    using assms(3)
    by (intro filter_cong) (auto simp: hasCapitalAndCurrency_def split: option.splits)
  have len: "length ?cities = length ?kept"
    by (simp only: citiesLoop_length same)
  have entry: "City_ID (?cities ! i) = int i + 1
        \<and> City_Name (?cities ! i) = RC_Capital (?kept ! i) ! 0
        \<and> City_ThreeLetterCode (?cities ! i) = RC_CCA3 (?kept ! i)
        \<and> City_Country (?cities ! i) = CN_Common (RC_Name (?kept ! i))
        \<and> City_Currency (?cities ! i) \<in>
            (case RC_Currencies (?kept ! i) of None \<Rightarrow> {} | Some kvs \<Rightarrow> fst ` set kvs)"
    if i: "i < length ?cities" for i
  proof -
    from i len have ik: "i < length ?kept" by simp
    then have "?kept ! i \<in> set ?kept" by (rule nth_mem)
    then have has: "hasCapitalAndCurrency (?kept ! i)" by simp
    then obtain kvs where kvs: "RC_Currencies (?kept ! i) = Some kvs" "kvs \<noteq> []"
      by (auto simp: hasCapitalAndCurrency_def split: option.splits)
    have "?cities ! i =
        \<lparr>City_ID = 1 + int i, City_Name = RC_Capital (?kept ! i) ! 0,
         City_ThreeLetterCode = RC_CCA3 (?kept ! i),
         City_Currency = firstCurrency (RC_Currencies (?kept ! i)),
         City_Country = CN_Common (RC_Name (?kept ! i))\<rparr>"
      using citiesLoop_nth [of i countries 1] ik unfolding same by (simp add: Let_def)
    moreover have "firstCurrency (RC_Currencies (?kept ! i)) \<in> fst ` set kvs"
      using kvs by (rule firstCurrency_declared)
    ultimately show ?thesis using kvs(1) by simp
  qed
  have nonempty: "City_Name city \<noteq> [] \<and> City_Currency city \<noteq> []"
    if strings: "\<forall>k \<in> set countries. [] \<notin> set (RC_Capital k)
            \<and> (\<forall>kvs. RC_Currencies k = Some kvs \<longrightarrow> [] \<notin> fst ` set kvs)"
      and city: "city \<in> set ?cities" for city
  proof -
    from city obtain i where i: "i < length ?cities" "city = ?cities ! i"
      by (auto simp: in_set_conv_nth)
    from i(1) len have ik: "i < length ?kept" by simp
    then have mem: "?kept ! i \<in> set ?kept" by (rule nth_mem)
    then have inC: "?kept ! i \<in> set countries" and has: "hasCapitalAndCurrency (?kept ! i)"
      by simp_all
    from has have cap: "RC_Capital (?kept ! i) \<noteq> []"
      by (simp add: hasCapitalAndCurrency_def)
    then have "RC_Capital (?kept ! i) ! 0 \<in> set (RC_Capital (?kept ! i))"
      by (intro nth_mem) simp
    with strings inC have name: "RC_Capital (?kept ! i) ! 0 \<noteq> []" by metis
    from has obtain kvs where kvs: "RC_Currencies (?kept ! i) = Some kvs"
      by (auto simp: hasCapitalAndCurrency_def split: option.splits)
    with entry [OF i(1)] have "City_Currency (?cities ! i) \<in> fst ` set kvs" by simp
    moreover from strings inC kvs have "[] \<notin> fst ` set kvs" by blast
    ultimately have "City_Currency (?cities ! i) \<noteq> []" by metis
    with name entry [OF i(1)] i(2) show ?thesis by simp
  qed
  from run len entry nonempty show ?thesis by blast
qed

text \<open>
  The theorem at a directory of two countries, the United Kingdom and a country with
  no capital: one entry, London with GBP.
\<close>

theorem cities_one_entry_per_listed_country_witness:
  "httpGet (exWorld (upstreamWith ''one group'' ''hourly 2 2 2 2'' ''success'' ''two countries''))
      RestCountriesAll = Response 200 ''two countries''
   \<and> decodeRestCountries (exWorld (upstreamWith ''one group'' ''hourly 2 2 2 2'' ''success'' ''two countries''))
        ''two countries'' = Inr (take 2 exCountries)
   \<and> list_all (\<lambda>k. RC_Currencies k \<noteq> Some []) (take 2 exCountries)
   \<and> list_all (\<lambda>k. [] \<notin> set (RC_Capital k)) (take 2 exCountries)
   \<and> list_all (\<lambda>k. case RC_Currencies k of None \<Rightarrow> True | Some kvs \<Rightarrow> [] \<notin> fst ` set kvs)
        (take 2 exCountries)
   \<and> (\<exists>cities. fst (fetchCitiesFromRestCountries
          (exWorld (upstreamWith ''one group'' ''hourly 2 2 2 2'' ''success'' ''two countries''))) = Inr cities
        \<and> length cities = 1
        \<and> City_ID (cities ! 0) = 1
        \<and> City_Name (cities ! 0) = ''London''
        \<and> City_ThreeLetterCode (cities ! 0) = ''GBR''
        \<and> City_Country (cities ! 0) = ''United Kingdom''
        \<and> City_Currency (cities ! 0) = ''GBP''
        \<and> list_all (\<lambda>city. City_Name city \<noteq> [] \<and> City_Currency city \<noteq> []) cities)"
proof -
  let ?w = "exWorld (upstreamWith ''one group'' ''hourly 2 2 2 2'' ''success'' ''two countries'')"
  have h1: "httpGet ?w RestCountriesAll = Response 200 ''two countries''"
    by (simp add: example_defs)
  have h2: "decodeRestCountries ?w ''two countries'' = Inr (take 2 exCountries)"
    by (simp add: example_defs)
  have h3: "\<forall>k \<in> set (take 2 exCountries). RC_Currencies k \<noteq> Some []"
    by (simp add: exCountries_def)
  have h4: "\<forall>k \<in> set (take 2 exCountries). [] \<notin> set (RC_Capital k)
            \<and> (\<forall>kvs. RC_Currencies k = Some kvs \<longrightarrow> [] \<notin> fst ` set kvs)"
    by (auto simp: exCountries_def)
  have kept: "filter hasCapitalAndCurrency (take 2 exCountries) = [exCountries ! 0]"
    by (simp add: exCountries_def hasCapitalAndCurrency_def)
  from cities_one_entry_per_listed_country [OF h1 h2 h3] h4
  obtain cities where c:
    "fst (fetchCitiesFromRestCountries ?w) = Inr cities"
    "length cities = length (filter hasCapitalAndCurrency (take 2 exCountries))"
    "\<forall>i < length cities.
          City_ID (cities ! i) = int i + 1
        \<and> City_Name (cities ! i) = RC_Capital (filter hasCapitalAndCurrency (take 2 exCountries) ! i) ! 0
        \<and> City_ThreeLetterCode (cities ! i) = RC_CCA3 (filter hasCapitalAndCurrency (take 2 exCountries) ! i)
        \<and> City_Country (cities ! i) = CN_Common (RC_Name (filter hasCapitalAndCurrency (take 2 exCountries) ! i))
        \<and> City_Currency (cities ! i) \<in>
            (case RC_Currencies (filter hasCapitalAndCurrency (take 2 exCountries) ! i) of
               None \<Rightarrow> {} | Some kvs \<Rightarrow> fst ` set kvs)"
    "\<forall>city \<in> set cities. City_Name city \<noteq> [] \<and> City_Currency city \<noteq> []"
    by blast
  from c(2) have len: "length cities = 1" by (simp only: kept) simp
  from c(3) len have "City_ID (cities ! 0) = 1
        \<and> City_Name (cities ! 0) = RC_Capital (exCountries ! 0) ! 0
        \<and> City_ThreeLetterCode (cities ! 0) = RC_CCA3 (exCountries ! 0)
        \<and> City_Country (cities ! 0) = CN_Common (RC_Name (exCountries ! 0))
        \<and> City_Currency (cities ! 0) \<in>
            (case RC_Currencies (exCountries ! 0) of None \<Rightarrow> {} | Some kvs \<Rightarrow> fst ` set kvs)"
    unfolding kept by simp
  then have "City_ID (cities ! 0) = 1
        \<and> City_Name (cities ! 0) = ''London''
        \<and> City_ThreeLetterCode (cities ! 0) = ''GBR''
        \<and> City_Country (cities ! 0) = ''United Kingdom''
        \<and> City_Currency (cities ! 0) = ''GBP''"
    by (simp add: exCountries_def)
  moreover from c(4) have "list_all (\<lambda>city. City_Name city \<noteq> [] \<and> City_Currency city \<noteq> []) cities"
    by (simp add: list_all_iff)
  moreover have "list_all (\<lambda>k. RC_Currencies k \<noteq> Some []) (take 2 exCountries)"
    using h3 by (simp add: list_all_iff)
  moreover have "list_all (\<lambda>k. [] \<notin> set (RC_Capital k)) (take 2 exCountries)"
    using h4 by (simp add: list_all_iff)
  moreover have "list_all (\<lambda>k. case RC_Currencies k of None \<Rightarrow> True | Some kvs \<Rightarrow> [] \<notin> fst ` set kvs)
        (take 2 exCountries)"
    using h4 by (auto simp: list_all_iff split: option.splits)
  ultimately show ?thesis using h1 h2 c(1) len by blast
qed

text \<open>
  Claim C3 as stated fails on a directory of four countries. Freedonia has a capital
  and a currency object with no entry (\<open>"currencies": {}\<close>): the code tests the map for
  nil only, so Freedonia is listed, with an empty currency. Sylvania's only capital is
  the empty string: it is listed with an empty name. (Antarctica, with no capital, is
  dropped.)
\<close>

theorem cities_empty_currency_listed:
  "fst (fetchCitiesFromRestCountries (exWorld upstreamRatesDown)) =
     Inr [\<lparr>City_ID = 1, City_Name = ''London'', City_ThreeLetterCode = ''GBR'',
           City_Currency = ''GBP'', City_Country = ''United Kingdom''\<rparr>,
          \<lparr>City_ID = 2, City_Name = ''Fredville'', City_ThreeLetterCode = ''FRD'',
           City_Currency = [], City_Country = ''Freedonia''\<rparr>,
          \<lparr>City_ID = 3, City_Name = [], City_ThreeLetterCode = ''SYL'',
           City_Currency = ''EUR'', City_Country = ''Sylvania''\<rparr>]"
  by (simp add: fetchCitiesFromRestCountries_def example_defs exCountries_def firstCurrency_def)


section \<open>Outside the model\<close>

text \<open>
  The wire format of City, Landmark, WeatherData and RatesData is produced and read
  by \<open>encoding/json\<close> from the struct tags of models.go. The program has no codec of
  its own, and the library's treatment of \<open>float64\<close> values (shortest decimal text, no
  encoding for NaN and infinities), of strings that are not valid UTF-8 and of
  \<open>time.Time\<close> (RFC 3339 text, location and monotonic reading) is not part of this
  development, where decoding is a parameter of the world. The round trip of claim C8
  is therefore not stated here. Nor is time: an upstream that never answers keeps
  the handler waiting, and every \<open>httpGet\<close> of the model answers.
\<close>

end
